theory Spec2Isabelle
  imports Main "HOL-Library.Word"
begin

section \<open>C and Python values\<close>

text \<open>
  The module \<^verbatim>\<open>pygit2.c\<close> is a CPython 2 extension over libgit2. Its C integers are
  modelled at their LP64 widths: \<^verbatim>\<open>long\<close>, \<^verbatim>\<open>long long\<close>, \<^verbatim>\<open>size_t\<close> and \<^verbatim>\<open>Py_ssize_t\<close>
  are 64-bit words, \<^verbatim>\<open>int\<close> is a 32-bit word. Signed values are read with \<open>sint\<close>.
\<close>

type_synonym c_long = "64 word"
type_synonym c_int = "32 word"
type_synonym size_t = "64 word"

text \<open>
  \<^verbatim>\<open>typedef struct { PyObject_HEAD git_repository *repo; } Repository;\<close>
  The pointer to libgit2's repository is a handle (a number).
\<close>

record Repository =
  Repository_repo :: nat

text \<open>
  The Python values the module's entry points receive and return. A Python 2 \<^verbatim>\<open>int\<close>
  holds a C long and \<^verbatim>\<open>bool\<close> is a subclass of it; a Python 2 \<^verbatim>\<open>long\<close> is unbounded;
  \<open>PyFloat m e\<close> is the finite double \<open>m * 2 ^ e\<close> (the infinities and NaN are left out);
  a \<^verbatim>\<open>str\<close> is a byte string and a \<^verbatim>\<open>unicode\<close> a list of code points.
\<close>

datatype PyObject =
    Py_None
  | PyBool bool
  | PyInt c_long
  | PyLong int
  | PyFloat int int
  | PyString string
  | PyUnicode "nat list"
  | PyTuple "PyObject list"
  | PyList "PyObject list"
  | PyRepository Repository

datatype PyExc =
    PyExc_TypeError
  | PyExc_ValueError
  | PyExc_RuntimeError
  | PyExc_KeyError
  | PyExc_IndexError
  | PyExc_MemoryError
  | PyExc_OverflowError
  | PyExc_SystemError
  | PyExc_UnicodeEncodeError

text \<open>
  What an exception carries: a message built by the module (\<^verbatim>\<open>PyErr_SetString\<close>,
  \<^verbatim>\<open>PyErr_Format\<close>), an object (\<^verbatim>\<open>PyErr_SetObject\<close>), nothing (\<^verbatim>\<open>PyErr_SetNone\<close>,
  \<^verbatim>\<open>PyErr_NoMemory\<close>), or a text chosen inside CPython, which is not modelled.
\<close>

datatype exc_value = Message string | ExcObject PyObject | NoValue | ApiText

text \<open>
  The ways a call ends without a result: a Python exception; the failed \<^verbatim>\<open>assert(0)\<close>
  of \<^verbatim>\<open>wrap_object\<close>, which aborts the process; and, when the assertion is compiled
  out, a NULL return with no exception set.
\<close>

datatype failure = Raised PyExc exc_value | AssertionFailed | NullWithoutException

text \<open>A \<^verbatim>\<open>char *\<close> taken from a Python string ends at its first NUL byte.\<close>

definition c_str :: "string \<Rightarrow> string" where
  "c_str s = takeWhile (\<lambda>c. c \<noteq> CHR 0x00) s"

definition quoted :: "string \<Rightarrow> string" where
  "quoted s = [CHR 0x22] @ s @ [CHR 0x22]"

subsection \<open>The CPython calls the module makes\<close>

text \<open>
  Modelled from the spec: the CPython API is not part of the repository. The spec's
  ``non-text value'', ``wrong arity'' and ``non-integer timestamp'' are cases in which
  these calls are made; each call accepts what CPython 2 accepts and raises the exception
  CPython 2 raises.
\<close>

fun PyString_Check :: "PyObject \<Rightarrow> bool" where
  "PyString_Check (PyString s) = True"
| "PyString_Check v = False"

fun PyInt_Check :: "PyObject \<Rightarrow> bool" where
  "PyInt_Check (PyInt n) = True"
| "PyInt_Check (PyBool b) = True"
| "PyInt_Check v = False"

text \<open>
  A \<^verbatim>\<open>unicode\<close> is turned into bytes with the default encoding, ASCII: a code point of
  128 or more raises \<^verbatim>\<open>UnicodeEncodeError\<close>.
\<close>

definition encode_default :: "nat list \<Rightarrow> string option" where
  "encode_default u = (if list_all (\<lambda>c. c < 128) u then Some (map char_of u) else None)"

fun PyString_AsString :: "PyObject \<Rightarrow> failure + string" where
  "PyString_AsString (PyString s) = Inr (c_str s)"
| "PyString_AsString (PyUnicode u) =
     (case encode_default u of
        None \<Rightarrow> Inl (Raised PyExc_UnicodeEncodeError ApiText)
      | Some s \<Rightarrow> Inr (c_str s))"
| "PyString_AsString v = Inl (Raised PyExc_TypeError ApiText)"

text \<open>
  The macro \<^verbatim>\<open>PyString_AS_STRING\<close> reads the buffer unchecked; the module applies it to
  strings only (after \<^verbatim>\<open>PyString_Check\<close>), so its value elsewhere is immaterial.
\<close>

fun PyString_AS_STRING :: "PyObject \<Rightarrow> string" where
  "PyString_AS_STRING (PyString s) = c_str s"
| "PyString_AS_STRING v = []"

text \<open>
  The \<^verbatim>\<open>nb_int\<close> slot of a float truncates towards zero. A Python integer is turned into
  a C long (or long long, of the same width) when it fits, with \<^verbatim>\<open>OverflowError\<close>
  otherwise.
\<close>

definition float_int :: "int \<Rightarrow> int \<Rightarrow> int" where
  "float_int m e =
     (if 0 \<le> e then m * 2 ^ nat e else sgn m * (\<bar>m\<bar> div 2 ^ nat (- e)))"

definition PyLong_AsLong :: "int \<Rightarrow> failure + c_long" where
  "PyLong_AsLong n =
     (if - (2 ^ 63) \<le> n \<and> n < 2 ^ 63 then Inr (word_of_int n)
      else Inl (Raised PyExc_OverflowError ApiText))"

text \<open>
  \<^verbatim>\<open>PyInt_AsLong\<close> takes an int as it is and goes through \<^verbatim>\<open>nb_int\<close> for the other
  numbers; a value with no \<^verbatim>\<open>nb_int\<close> slot raises \<^verbatim>\<open>TypeError\<close>.
\<close>

fun PyInt_AsLong :: "PyObject \<Rightarrow> failure + c_long" where
  "PyInt_AsLong (PyInt n) = Inr n"
| "PyInt_AsLong (PyBool b) = Inr (if b then 1 else 0)"
| "PyInt_AsLong (PyLong n) = PyLong_AsLong n"
| "PyInt_AsLong (PyFloat m e) = PyLong_AsLong (float_int m e)"
| "PyInt_AsLong v = Inl (Raised PyExc_TypeError ApiText)"

text \<open>
  The argument converters of \<^verbatim>\<open>PyArg_ParseTuple\<close>: \<^verbatim>\<open>s\<close> takes a str or an encodable
  unicode without NUL bytes; \<^verbatim>\<open>L\<close> takes every number, a float through \<^verbatim>\<open>nb_int\<close>;
  \<^verbatim>\<open>i\<close> refuses a float and takes the other numbers that fit a C int.
\<close>

fun convert_s :: "PyObject \<Rightarrow> failure + string" where
  "convert_s (PyString s) =
     (if CHR 0x00 \<in> set s then Inl (Raised PyExc_TypeError ApiText) else Inr s)"
| "convert_s (PyUnicode u) =
     (case encode_default u of
        None \<Rightarrow> Inl (Raised PyExc_UnicodeEncodeError ApiText)
      | Some s \<Rightarrow>
          if CHR 0x00 \<in> set s then Inl (Raised PyExc_TypeError ApiText) else Inr s)"
| "convert_s v = Inl (Raised PyExc_TypeError ApiText)"

fun convert_L :: "PyObject \<Rightarrow> failure + c_long" where
  "convert_L (PyInt n) = Inr n"
| "convert_L (PyBool b) = Inr (if b then 1 else 0)"
| "convert_L (PyLong n) = PyLong_AsLong n"
| "convert_L (PyFloat m e) = PyLong_AsLong (float_int m e)"
| "convert_L v = Inl (Raised PyExc_TypeError ApiText)"

definition convert_i :: "PyObject \<Rightarrow> failure + c_int" where
  "convert_i v =
     (case v of
        PyFloat m e \<Rightarrow> Inl (Raised PyExc_TypeError ApiText)
      | other \<Rightarrow>
          (case PyInt_AsLong v of
             Inl e \<Rightarrow> Inl e
           | Inr n \<Rightarrow>
               if sint n > 2 ^ 31 - 1 then Inl (Raised PyExc_OverflowError ApiText)
               else if sint n < - (2 ^ 31) then Inl (Raised PyExc_OverflowError ApiText)
               else Inr (ucast n)))"

text \<open>The numbers: the values with an \<^verbatim>\<open>nb_int\<close> slot.\<close>

fun is_number :: "PyObject \<Rightarrow> bool" where
  "is_number (PyInt n) = True"
| "is_number (PyBool b) = True"
| "is_number (PyLong n) = True"
| "is_number (PyFloat m e) = True"
| "is_number v = False"

text \<open>\<^verbatim>\<open>PyArg_ParseTuple(value, "ssL", &name, &email, &time)\<close>\<close>

definition PyArg_ParseTuple_ssL :: "PyObject \<Rightarrow> failure + (string \<times> string \<times> c_long)" where
  "PyArg_ParseTuple_ssL args =
     (case args of
        PyTuple [a, b, c] \<Rightarrow>
          (case convert_s a of
             Inl e \<Rightarrow> Inl e
           | Inr name \<Rightarrow>
               (case convert_s b of
                  Inl e \<Rightarrow> Inl e
                | Inr email \<Rightarrow>
                    (case convert_L c of
                       Inl e \<Rightarrow> Inl e
                     | Inr time \<Rightarrow> Inr (name, email, time))))
      | PyTuple xs \<Rightarrow> Inl (Raised PyExc_TypeError ApiText)
      | v \<Rightarrow> Inl (Raised PyExc_SystemError ApiText))"

text \<open>\<^verbatim>\<open>PyArg_ParseTuple(args, "ssi", &hex, &name, &attributes)\<close>\<close>

definition PyArg_ParseTuple_ssi :: "PyObject \<Rightarrow> failure + (string \<times> string \<times> c_int)" where
  "PyArg_ParseTuple_ssi args =
     (case args of
        PyTuple [a, b, c] \<Rightarrow>
          (case convert_s a of
             Inl e \<Rightarrow> Inl e
           | Inr hex \<Rightarrow>
               (case convert_s b of
                  Inl e \<Rightarrow> Inl e
                | Inr name \<Rightarrow>
                    (case convert_i c of
                       Inl e \<Rightarrow> Inl e
                     | Inr attributes \<Rightarrow> Inr (hex, name, attributes))))
      | PyTuple xs \<Rightarrow> Inl (Raised PyExc_TypeError ApiText)
      | v \<Rightarrow> Inl (Raised PyExc_SystemError ApiText))"

text \<open>\<^verbatim>\<open>PyArg_ParseTuple(args, "O", repo)\<close>\<close>

definition PyArg_ParseTuple_O :: "PyObject \<Rightarrow> failure + PyObject" where
  "PyArg_ParseTuple_O args =
     (case args of
        PyTuple [a] \<Rightarrow> Inr a
      | PyTuple xs \<Rightarrow> Inl (Raised PyExc_TypeError ApiText)
      | v \<Rightarrow> Inl (Raised PyExc_SystemError ApiText))"

section \<open>libgit2, the object database and the hex codec\<close>

subsection \<open>Object ids\<close>

text \<open>
  Modelled from the spec: \<^verbatim>\<open>git_oid\<close>, \<^verbatim>\<open>git_oid_mkstr\<close> and \<^verbatim>\<open>git_oid_fmt\<close> belong to
  libgit2. An ObjectId is a 20-byte hash; its hex form is exactly 40 lowercase hex
  characters; decoding rejects a wrong length and non-hex characters.
\<close>

datatype git_oid = Oid "8 word list"

definition from_hex :: "char \<Rightarrow> nat option" where
  "from_hex c =
     (let n = (of_char c :: nat) in
      if 48 \<le> n \<and> n \<le> 57 then Some (n - 48)
      else if 97 \<le> n \<and> n \<le> 102 then Some (n - 87)
      else None)"

definition to_hex :: "nat \<Rightarrow> char" where
  "to_hex n = ''0123456789abcdef'' ! n"

fun hex_pairs :: "string \<Rightarrow> 8 word list option" where
  "hex_pairs [] = Some []"
| "hex_pairs [a] = None"
| "hex_pairs (a # b # r) =
     (case from_hex a of
        None \<Rightarrow> None
      | Some h \<Rightarrow>
          (case from_hex b of
             None \<Rightarrow> None
           | Some l \<Rightarrow>
               (case hex_pairs r of
                  None \<Rightarrow> None
                | Some bs \<Rightarrow> Some (of_nat (16 * h + l) # bs))))"

text \<open>\<^verbatim>\<open>git_oid_mkstr\<close> returns a negative status on failure: here \<open>None\<close>.\<close>

definition git_oid_mkstr :: "string \<Rightarrow> git_oid option" where
  "git_oid_mkstr s = (if length s = 40 then map_option Oid (hex_pairs s) else None)"

fun git_oid_fmt :: "git_oid \<Rightarrow> string" where
  "git_oid_fmt (Oid bs) =
     concat (map (\<lambda>b. [to_hex (unat b div 16), to_hex (unat b mod 16)]) bs)"

subsection \<open>Objects\<close>

text \<open>
  Modelled from the spec: the values of libgit2's \<^verbatim>\<open>git_otype\<close> enumeration, which the
  module exports as \<^verbatim>\<open>GIT_OBJ_ANY\<close>, \<^verbatim>\<open>GIT_OBJ_COMMIT\<close>, \<^verbatim>\<open>GIT_OBJ_TREE\<close>, \<^verbatim>\<open>GIT_OBJ_BLOB\<close>
  and \<^verbatim>\<open>GIT_OBJ_TAG\<close>. A stored type tag is an integer; the four known kinds are
  commit, tree, blob and tag.
\<close>

definition GIT_OBJ_ANY :: int where "GIT_OBJ_ANY = - 2"
definition GIT_OBJ_BAD :: int where "GIT_OBJ_BAD = - 1"
definition GIT_OBJ_COMMIT :: int where "GIT_OBJ_COMMIT = 1"
definition GIT_OBJ_TREE :: int where "GIT_OBJ_TREE = 2"
definition GIT_OBJ_BLOB :: int where "GIT_OBJ_BLOB = 3"
definition GIT_OBJ_TAG :: int where "GIT_OBJ_TAG = 4"

text \<open>
  Modelled from the spec: libgit2's structures. A commit's identity is a (name, email,
  unix timestamp) triple; a tree entry is (name, attribute bits, target id) and belongs
  to the tree that holds it; an object is persisted (it has an id) or in memory (it has
  none until its first write). \<open>object_owner\<close> is the handle of the repository the
  object belongs to; \<open>entry_owner\<close> is that of the entry's tree.
\<close>

record git_person =
  person_name :: string
  person_email :: string
  person_time :: c_long

record git_tree_entry =
  entry_attr :: c_int
  entry_filename :: string
  entry_oid :: git_oid
  entry_owner :: nat

record git_object =
  object_id :: "git_oid option"
  object_type :: int
  object_owner :: nat
  object_modified :: bool
  commit_message :: string
  commit_author :: "git_person option"
  commit_committer :: "git_person option"
  tree_entries :: "git_tree_entry list"

text \<open>\<^verbatim>\<open>git_rawobj\<close>: \<open>raw_data = None\<close> is the NULL data pointer.\<close>

record git_rawobj =
  raw_data :: "string option"
  raw_len :: nat
  raw_type :: int

text \<open>
  Modelled from the spec: the storage collaborator. \<open>odb\<close> gives, for each repository
  handle, the ObjectDatabase: a finite map from ids to (type tag, bytes). \<open>loaded\<close> gives
  the ids of the objects the library has looked up for a repository and keeps on its
  behalf (caching is the collaborator's concern; the module does not free a looked-up
  object: it clears \<^verbatim>\<open>own_obj\<close>). How objects are serialised (\<open>writeback\<close>), decoded
  (\<open>parse\<close>) and hashed (\<open>hash\<close>) is owned by the collaborator and left open, as are the
  conditions under which a database write fails (\<open>odb_write_error\<close>) or memory runs out
  (\<open>out_of_memory\<close>). \<open>NDEBUG\<close> tells whether the module was compiled with assertions
  disabled.
\<close>

record git_env =
  odb :: "nat \<Rightarrow> git_oid \<Rightarrow> (int \<times> string) option"
  loaded :: "nat \<Rightarrow> git_oid set"
  parse :: "int \<Rightarrow> string \<Rightarrow> git_object"
  writeback :: "git_object \<Rightarrow> string"
  hash :: "int \<Rightarrow> string \<Rightarrow> git_oid"
  odb_write_error :: bool
  out_of_memory :: bool
  NDEBUG :: bool

text \<open>
  Modelled from the spec: \<^verbatim>\<open>exists(id) -> bool\<close> of the ObjectDatabase, and the
  database a repository owns.
\<close>

definition git_odb_exists :: "(git_oid \<Rightarrow> (int \<times> string) option) \<Rightarrow> git_oid \<Rightarrow> int" where
  "git_odb_exists db oid = (case db oid of None \<Rightarrow> 0 | Some raw \<Rightarrow> 1)"

definition git_repository_database :: "git_env \<Rightarrow> nat \<Rightarrow> git_oid \<Rightarrow> (int \<times> string) option" where
  "git_repository_database g r = odb g r"

text \<open>
  Modelled from the spec: \<^verbatim>\<open>read(id) -> (type_tag, bytes) | fails with NotFound\<close>. The
  status is negative on failure, and the raw object then has a NULL data pointer.
\<close>

definition git_odb_read :: "(git_oid \<Rightarrow> (int \<times> string) option) \<Rightarrow> git_oid \<Rightarrow> int \<times> git_rawobj" where
  "git_odb_read db oid =
     (case db oid of
        None \<Rightarrow> (- 1, \<lparr>raw_data = None, raw_len = 0, raw_type = GIT_OBJ_BAD\<rparr>)
      | Some (t, bytes) \<Rightarrow> (0, \<lparr>raw_data = Some bytes, raw_len = length bytes, raw_type = t\<rparr>))"

text \<open>
  Modelled from the spec: \<^verbatim>\<open>git_repository_lookup\<close> queries the database for the id and
  decodes the stored bytes into an object of the stored type; it returns NULL (\<open>None\<close>)
  when the id is absent, when a type other than \<^verbatim>\<open>GIT_OBJ_ANY\<close> is asked for and differs
  from the stored one, or when memory runs out.
\<close>

definition git_repository_lookup :: "git_env \<Rightarrow> nat \<Rightarrow> git_oid \<Rightarrow> int \<Rightarrow> git_object option" where
  "git_repository_lookup g r oid ty =
     (case git_repository_database g r oid of
        None \<Rightarrow> None
      | Some (t, bytes) \<Rightarrow>
          if ty \<noteq> GIT_OBJ_ANY \<and> ty \<noteq> t then None
          else if out_of_memory g then None
          else Some ((parse g t bytes)
                 \<lparr>object_id := Some oid, object_type := t, object_owner := r,
                  object_modified := False\<rparr>))"


text \<open>
  Modelled from the spec: libgit2's accessors. \<^verbatim>\<open>git_object_id\<close> is NULL (\<open>None\<close>) for an
  object that is in memory only.
\<close>

definition git_object_id :: "git_object \<Rightarrow> git_oid option" where
  "git_object_id ob = object_id ob"

definition git_object_type :: "git_object \<Rightarrow> int" where
  "git_object_type ob = object_type ob"

definition git_object_owner :: "git_object \<Rightarrow> nat" where
  "git_object_owner ob = object_owner ob"

text \<open>
  Modelled from the spec: \<^verbatim>\<open>write() -> ObjectId | fails with StorageError\<close> of the
  ObjectDatabase, behind \<^verbatim>\<open>git_object_write\<close>: the current in-memory state is serialised
  and stored and the id assigned; writing an unchanged persisted object is a no-op; a
  failed write leaves the object's id and the database untouched. The status is negative
  on failure.
\<close>

definition git_object_write :: "git_env \<Rightarrow> git_object \<Rightarrow> int \<times> git_object \<times> git_env" where
  "git_object_write g ob =
     (if object_id ob \<noteq> None \<and> \<not> object_modified ob then (0, ob, g)
      else if odb_write_error g \<or> out_of_memory g then (- 1, ob, g)
      else
        let bytes = writeback g ob;
            oid = hash g (object_type ob) bytes
        in (0,
            ob\<lparr>object_id := Some oid, object_modified := False\<rparr>,
            g\<lparr>odb := (odb g)
                 (object_owner ob := (odb g (object_owner ob))(oid \<mapsto> (object_type ob, bytes)))\<rparr>))"

text \<open>
  Modelled from the spec: \<^verbatim>\<open>git_commit_new\<close>, \<^verbatim>\<open>git_tree_new\<close> and \<^verbatim>\<open>git_object_new\<close>. A
  brand-new object is attached to a repository, has empty fields and no id until it is
  written; NULL (\<open>None\<close>) when memory runs out.
\<close>

definition git_object_new :: "git_env \<Rightarrow> nat \<Rightarrow> int \<Rightarrow> git_object option" where
  "git_object_new g r ty =
     (if out_of_memory g then None
      else Some \<lparr>object_id = None, object_type = ty, object_owner = r,
                 object_modified = True, commit_message = [], commit_author = None,
                 commit_committer = None, tree_entries = []\<rparr>)"

definition git_commit_new :: "git_env \<Rightarrow> nat \<Rightarrow> git_object option" where
  "git_commit_new g r = git_object_new g r GIT_OBJ_COMMIT"

definition git_tree_new :: "git_env \<Rightarrow> nat \<Rightarrow> git_object option" where
  "git_tree_new g r = git_object_new g r GIT_OBJ_TREE"

text \<open>
  Modelled from the spec: the setters of libgit2's commit; each replaces one field and
  marks the object as changed.
\<close>

definition git_commit_set_message :: "git_object \<Rightarrow> string \<Rightarrow> git_object" where
  "git_commit_set_message ob msg = ob\<lparr>commit_message := msg, object_modified := True\<rparr>"

definition git_commit_set_committer :: "git_object \<Rightarrow> string \<Rightarrow> string \<Rightarrow> c_long \<Rightarrow> git_object" where
  "git_commit_set_committer ob name email time =
     ob\<lparr>commit_committer :=
          Some \<lparr>person_name = name, person_email = email, person_time = time\<rparr>,
        object_modified := True\<rparr>"

definition git_commit_set_author :: "git_object \<Rightarrow> string \<Rightarrow> string \<Rightarrow> c_long \<Rightarrow> git_object" where
  "git_commit_set_author ob name email time =
     ob\<lparr>commit_author :=
          Some \<lparr>person_name = name, person_email = email, person_time = time\<rparr>,
        object_modified := True\<rparr>"

definition git_commit_message :: "git_object \<Rightarrow> string" where
  "git_commit_message ob = commit_message ob"

text \<open>
  Modelled from the spec: libgit2's tree. A tree is an ordered sequence of entries;
  \<^verbatim>\<open>git_tree_entry_byname\<close> finds the entry with exactly that name,
  \<^verbatim>\<open>git_tree_entry_byindex\<close> the entry at a position (NULL out of range);
  \<^verbatim>\<open>git_tree_add_entry\<close> appends a new entry, without looking its target up, and fails
  (negative status) only when memory runs out; the remove calls delete one entry and
  shift the later ones, with a negative status when there is none to delete.
\<close>

definition git_tree_entrycount :: "git_object \<Rightarrow> size_t" where
  "git_tree_entrycount tr = of_nat (length (tree_entries tr))"

definition git_tree_entry_byname :: "git_object \<Rightarrow> string \<Rightarrow> git_tree_entry option" where
  "git_tree_entry_byname tr name = find (\<lambda>e. entry_filename e = name) (tree_entries tr)"

definition git_tree_entry_byindex :: "git_object \<Rightarrow> c_int \<Rightarrow> git_tree_entry option" where
  "git_tree_entry_byindex tr idx =
     (if 0 \<le> sint idx \<and> nat (sint idx) < length (tree_entries tr)
      then Some (tree_entries tr ! nat (sint idx)) else None)"

definition git_tree_add_entry :: "git_env \<Rightarrow> git_object \<Rightarrow> git_oid \<Rightarrow> string \<Rightarrow> c_int \<Rightarrow> int \<times> git_object" where
  "git_tree_add_entry g tr oid filename attributes =
     (if out_of_memory g then (- 1, tr)
      else (0, tr\<lparr>tree_entries := tree_entries tr @
                    [\<lparr>entry_attr = attributes, entry_filename = filename, entry_oid = oid,
                      entry_owner = object_owner tr\<rparr>],
                  object_modified := True\<rparr>))"

fun remove_first :: "('a \<Rightarrow> bool) \<Rightarrow> 'a list \<Rightarrow> 'a list" where
  "remove_first P [] = []"
| "remove_first P (x # xs) = (if P x then xs else x # remove_first P xs)"

definition git_tree_remove_entry_byname :: "git_object \<Rightarrow> string \<Rightarrow> int \<times> git_object" where
  "git_tree_remove_entry_byname tr name =
     (case git_tree_entry_byname tr name of
        None \<Rightarrow> (- 1, tr)
      | Some e \<Rightarrow>
          (0, tr\<lparr>tree_entries := remove_first (\<lambda>e. entry_filename e = name) (tree_entries tr),
                object_modified := True\<rparr>))"

definition git_tree_remove_entry_byindex :: "git_object \<Rightarrow> c_int \<Rightarrow> int \<times> git_object" where
  "git_tree_remove_entry_byindex tr idx =
     (case git_tree_entry_byindex tr idx of
        None \<Rightarrow> (- 1, tr)
      | Some e \<Rightarrow>
          (0, tr\<lparr>tree_entries :=
                  take (nat (sint idx)) (tree_entries tr) @
                  drop (Suc (nat (sint idx))) (tree_entries tr),
                object_modified := True\<rparr>))"

definition git_tree_entry_id :: "git_tree_entry \<Rightarrow> git_oid" where
  "git_tree_entry_id e = entry_oid e"

text \<open>
  Modelled from the spec: the setters of a tree entry. The attribute bits are not
  validated; renaming does not reorder the entry; setting the id changes which object the
  slot points to without touching the object store. Each marks the tree as changed. A
  pointer to an entry is modelled by the entry it points to and by its tree: the slot it
  denotes is the first one of the tree that holds this entry (the names within a tree are
  unique). The setter gives the entry and the tree as it leaves them.
\<close>

fun update_first :: "('a \<Rightarrow> bool) \<Rightarrow> ('a \<Rightarrow> 'a) \<Rightarrow> 'a list \<Rightarrow> 'a list" where
  "update_first P f [] = []"
| "update_first P f (x # xs) = (if P x then f x # xs else x # update_first P f xs)"

definition git_tree_entry_set_attributes :: "git_object \<Rightarrow> git_tree_entry \<Rightarrow> c_int \<Rightarrow> git_tree_entry \<times> git_object" where
  "git_tree_entry_set_attributes tr e attributes =
     (e\<lparr>entry_attr := attributes\<rparr>,
      tr\<lparr>tree_entries :=
           update_first (\<lambda>x. x = e) (\<lambda>x. x\<lparr>entry_attr := attributes\<rparr>) (tree_entries tr),
         object_modified := True\<rparr>)"

definition git_tree_entry_set_name :: "git_object \<Rightarrow> git_tree_entry \<Rightarrow> string \<Rightarrow> git_tree_entry \<times> git_object" where
  "git_tree_entry_set_name tr e name =
     (e\<lparr>entry_filename := name\<rparr>,
      tr\<lparr>tree_entries :=
           update_first (\<lambda>x. x = e) (\<lambda>x. x\<lparr>entry_filename := name\<rparr>) (tree_entries tr),
         object_modified := True\<rparr>)"

definition git_tree_entry_set_id :: "git_object \<Rightarrow> git_tree_entry \<Rightarrow> git_oid \<Rightarrow> git_tree_entry \<times> git_object" where
  "git_tree_entry_set_id tr e oid =
     (e\<lparr>entry_oid := oid\<rparr>,
      tr\<lparr>tree_entries :=
           update_first (\<lambda>x. x = e) (\<lambda>x. x\<lparr>entry_oid := oid\<rparr>) (tree_entries tr),
         object_modified := True\<rparr>)"

text \<open>
  Modelled from the spec: \<^verbatim>\<open>git_tree_entry_2object\<close> resolves the entry's target id in
  the repository of the entry's tree.
\<close>

definition git_tree_entry_2object :: "git_env \<Rightarrow> git_tree_entry \<Rightarrow> git_object option" where
  "git_tree_entry_2object g e =
     git_repository_lookup g (entry_owner e) (git_tree_entry_id e) GIT_OBJ_ANY"

section \<open>The module\<close>

text \<open>
  The wrapper types. \<^verbatim>\<open>OBJECT_STRUCT\<close> gives \<^verbatim>\<open>Object\<close>, \<^verbatim>\<open>Commit\<close>, \<^verbatim>\<open>Tree\<close> and \<^verbatim>\<open>Blob\<close>
  the same layout (the Python type, the repository, the ownership bit, the libgit2
  object); the Python type tells them apart.
\<close>

datatype PyTypeObject = ObjectType | CommitType | TreeType | BlobType

record Object =
  ob_type :: PyTypeObject
  Object_repo :: Repository
  Object_own_obj :: bool
  Object_obj :: git_object

record TreeEntry =
  TreeEntry_entry :: git_tree_entry
  TreeEntry_tree :: Object

text \<open>
  Modelled from the spec: \<^verbatim>\<open>tp_alloc\<close> of CPython returns NULL with \<^verbatim>\<open>MemoryError\<close> set
  when memory runs out, and a zeroed instance of the type otherwise.
\<close>

definition tp_alloc :: "git_env \<Rightarrow> 'a \<Rightarrow> failure + 'a" where
  "tp_alloc g ty =
     (if out_of_memory g then Inl (Raised PyExc_MemoryError NoValue) else Inr ty)"

subsection \<open>Repository\<close>

text \<open>
  \<^verbatim>\<open>Repository_contains\<close>: the \<^verbatim>\<open>sq_contains\<close> slot; the status of \<^verbatim>\<open>git_odb_exists\<close> is
  returned as it is.
\<close>

definition Repository_contains :: "git_env \<Rightarrow> Repository \<Rightarrow> PyObject \<Rightarrow> failure + int" where
  "Repository_contains g self val =
     (case PyString_AsString val of
        Inl e \<Rightarrow> Inl e
      | Inr hex \<Rightarrow>
          (case git_oid_mkstr hex of
             None \<Rightarrow> Inl (Raised PyExc_ValueError (Message (''Invalid hex SHA '' @ quoted hex)))
           | Some oid \<Rightarrow>
               Inr (git_odb_exists (git_repository_database g (Repository_repo self)) oid)))"

text \<open>
  \<^verbatim>\<open>wrap_object\<close>: the switch on the object's type allocates the wrapper; the default
  case is \<^verbatim>\<open>assert(0)\<close>, after which (assertions compiled out) \<^verbatim>\<open>py_obj\<close> is still NULL
  and NULL is returned.
\<close>

definition wrap_object :: "git_env \<Rightarrow> git_object \<Rightarrow> Repository \<Rightarrow> failure + Object" where
  "wrap_object g ob repo =
     (let t = git_object_type ob in
      case (if t = GIT_OBJ_COMMIT then tp_alloc g CommitType
            else if t = GIT_OBJ_TREE then tp_alloc g TreeType
            else if t = GIT_OBJ_BLOB then tp_alloc g BlobType
            else if t = GIT_OBJ_TAG then tp_alloc g ObjectType
            else if NDEBUG g then Inl NullWithoutException
            else Inl AssertionFailed) of
        Inl e \<Rightarrow> Inl e
      | Inr ty \<Rightarrow>
          Inr \<lparr>ob_type = ty, Object_repo = repo, Object_own_obj = False, Object_obj = ob\<rparr>)"

definition Repository_getitem :: "git_env \<Rightarrow> Repository \<Rightarrow> PyObject \<Rightarrow> failure + Object" where
  "Repository_getitem g self val =
     (case PyString_AsString val of
        Inl e \<Rightarrow> Inl e
      | Inr hex \<Rightarrow>
          (case git_oid_mkstr hex of
             None \<Rightarrow> Inl (Raised PyExc_ValueError (Message (''Invalid hex SHA '' @ quoted hex)))
           | Some oid \<Rightarrow>
               (case git_repository_lookup g (Repository_repo self) oid GIT_OBJ_ANY of
                  None \<Rightarrow>
                    Inl (Raised PyExc_RuntimeError
                          (Message (''Failed to look up hex SHA '' @ quoted hex)))
                | Some ob \<Rightarrow>
                    (case wrap_object g ob self of
                       Inl e \<Rightarrow> Inl e
                     | Inr py_obj \<Rightarrow> Inr (py_obj\<lparr>Object_own_obj := False\<rparr>)))))"


text \<open>
  \<^verbatim>\<open>repository_raw_read\<close> returns the raw object and, when the read failed, leaves a
  \<^verbatim>\<open>RuntimeError\<close> pending (the first component).
\<close>

definition repository_raw_read :: "git_env \<Rightarrow> nat \<Rightarrow> git_oid \<Rightarrow> failure option \<times> git_rawobj" where
  "repository_raw_read g repo oid =
     (let db = git_repository_database g repo;
          (status, raw) = git_odb_read db oid
      in if status < 0
         then (Some (Raised PyExc_RuntimeError (Message ''Unable to read object'')), raw)
         else (None, raw))"

subsection \<open>Object\<close>


definition Object_get_sha :: "Object \<Rightarrow> PyObject" where
  "Object_get_sha self =
     (case git_object_id (Object_obj self) of
        None \<Rightarrow> Py_None
      | Some oid \<Rightarrow> PyString (git_oid_fmt oid))"

text \<open>
  \<^verbatim>\<open>Object_read_raw\<close>: an in-memory object gives \<^verbatim>\<open>None\<close>; a NULL data pointer raises
  \<^verbatim>\<open>RuntimeError\<close>, replacing the exception \<^verbatim>\<open>repository_raw_read\<close> left pending.
\<close>

definition Object_read_raw :: "git_env \<Rightarrow> Object \<Rightarrow> failure + PyObject" where
  "Object_read_raw g self =
     (case git_object_id (Object_obj self) of
        None \<Rightarrow> Inr Py_None
      | Some oid \<Rightarrow>
          (let (pending, raw) = repository_raw_read g (git_object_owner (Object_obj self)) oid
           in case raw_data raw of
                None \<Rightarrow> Inl (Raised PyExc_RuntimeError (Message ''Failed to read object''))
              | Some bytes \<Rightarrow> Inr (PyString (take (raw_len raw) bytes))))"

text \<open>
  \<^verbatim>\<open>Object_write\<close> returns the failure or \<^verbatim>\<open>None\<close>, together with the wrapper (whose
  libgit2 object the call may have changed) and the new state of the library.
\<close>

definition Object_write :: "git_env \<Rightarrow> Object \<Rightarrow> (failure + PyObject) \<times> Object \<times> git_env" where
  "Object_write g self =
     (let (status, ob, g') = git_object_write g (Object_obj self)
      in if status < 0
         then (Inl (Raised PyExc_RuntimeError (Message ''Failed to write object to repo'')),
               self\<lparr>Object_obj := ob\<rparr>, g')
         else (Inr Py_None, self\<lparr>Object_obj := ob\<rparr>, g'))"

subsection \<open>Commit\<close>

text \<open>
  \<^verbatim>\<open>object_init_check\<close>: \<open>kwds\<close> is the keyword dictionary or NULL (\<open>None\<close>); on success
  the repository argument is returned.
\<close>

definition object_init_check :: "string \<Rightarrow> PyObject \<Rightarrow> PyObject option \<Rightarrow> failure + Repository" where
  "object_init_check type_name args kwds =
     (case kwds of
        Some d \<Rightarrow>
          Inl (Raised PyExc_TypeError (Message (type_name @ '' takes no keyword arugments'')))
      | None \<Rightarrow>
          (case PyArg_ParseTuple_O args of
             Inl e \<Rightarrow> Inl e
           | Inr v \<Rightarrow>
               (case v of
                  PyRepository repo \<Rightarrow> Inr repo
                | other \<Rightarrow>
                    Inl (Raised PyExc_TypeError (Message ''Expected Repository for repo'')))))"

text \<open>
  The \<^verbatim>\<open>tp_init\<close> functions fill the wrapper in; the model returns the filled wrapper
  (status 0) or the failure (status -1).
\<close>

definition Commit_init :: "git_env \<Rightarrow> PyObject \<Rightarrow> PyObject option \<Rightarrow> failure + Object" where
  "Commit_init g args kwds =
     (case object_init_check ''Commit'' args kwds of
        Inl e \<Rightarrow> Inl e
      | Inr repo \<Rightarrow>
          (case git_commit_new g (Repository_repo repo) of
             None \<Rightarrow> Inl (Raised PyExc_MemoryError NoValue)
           | Some commit \<Rightarrow>
               Inr \<lparr>ob_type = CommitType, Object_repo = repo, Object_own_obj = True,
                    Object_obj = commit\<rparr>))"

definition Commit_get_message :: "Object \<Rightarrow> PyObject" where
  "Commit_get_message commit = PyString (git_commit_message (Object_obj commit))"

text \<open>
  The setters return the status 0 or the failure (status -1), and the wrapper as the
  call leaves it.
\<close>

definition Commit_set_message :: "Object \<Rightarrow> PyObject \<Rightarrow> (failure + int) \<times> Object" where
  "Commit_set_message commit message =
     (if \<not> PyString_Check message
      then (Inl (Raised PyExc_TypeError (Message ''Expected string for commit message.'')),
            commit)
      else (Inr 0,
            commit\<lparr>Object_obj :=
              git_commit_set_message (Object_obj commit) (PyString_AS_STRING message)\<rparr>))"

definition Commit_set_committer :: "Object \<Rightarrow> PyObject \<Rightarrow> (failure + int) \<times> Object" where
  "Commit_set_committer commit val =
     (case PyArg_ParseTuple_ssL val of
        Inl e \<Rightarrow> (Inl e, commit)
      | Inr (name, email, time) \<Rightarrow>
          (Inr 0,
           commit\<lparr>Object_obj :=
             git_commit_set_committer (Object_obj commit) name email time\<rparr>))"

definition Commit_set_author :: "Object \<Rightarrow> PyObject \<Rightarrow> (failure + int) \<times> Object" where
  "Commit_set_author commit val =
     (case PyArg_ParseTuple_ssL val of
        Inl e \<Rightarrow> (Inl e, commit)
      | Inr (name, email, time) \<Rightarrow>
          (Inr 0,
           commit\<lparr>Object_obj :=
             git_commit_set_author (Object_obj commit) name email time\<rparr>))"

subsection \<open>TreeEntry\<close>

definition TreeEntry_get_attributes :: "TreeEntry \<Rightarrow> PyObject" where
  "TreeEntry_get_attributes self = PyInt (ucast (entry_attr (TreeEntry_entry self)))"

definition TreeEntry_get_name :: "TreeEntry \<Rightarrow> PyObject" where
  "TreeEntry_get_name self = PyString (entry_filename (TreeEntry_entry self))"

definition TreeEntry_get_sha :: "TreeEntry \<Rightarrow> PyObject" where
  "TreeEntry_get_sha self = PyString (git_oid_fmt (git_tree_entry_id (TreeEntry_entry self)))"

text \<open>
  The setters of a \<^verbatim>\<open>TreeEntry\<close> change the entry inside its tree: they return the status
  0 or the failure (status -1), and the wrapper with its entry and its tree as the call
  leaves them. \<^verbatim>\<open>TreeEntry_set_attributes\<close> stores the long in an \<^verbatim>\<open>unsigned int\<close>.
\<close>

definition TreeEntry_set_attributes :: "TreeEntry \<Rightarrow> PyObject \<Rightarrow> (failure + int) \<times> TreeEntry" where
  "TreeEntry_set_attributes self val =
     (case PyInt_AsLong val of
        Inl e \<Rightarrow> (Inl e, self)
      | Inr attributes \<Rightarrow>
          (let (entry, tr) =
                 git_tree_entry_set_attributes (Object_obj (TreeEntry_tree self))
                   (TreeEntry_entry self) (ucast attributes)
           in (Inr 0,
               \<lparr>TreeEntry_entry = entry,
                TreeEntry_tree = (TreeEntry_tree self)\<lparr>Object_obj := tr\<rparr>\<rparr>)))"

definition TreeEntry_set_name :: "TreeEntry \<Rightarrow> PyObject \<Rightarrow> (failure + int) \<times> TreeEntry" where
  "TreeEntry_set_name self val =
     (case PyString_AsString val of
        Inl e \<Rightarrow> (Inl e, self)
      | Inr name \<Rightarrow>
          (let (entry, tr) =
                 git_tree_entry_set_name (Object_obj (TreeEntry_tree self))
                   (TreeEntry_entry self) name
           in (Inr 0,
               \<lparr>TreeEntry_entry = entry,
                TreeEntry_tree = (TreeEntry_tree self)\<lparr>Object_obj := tr\<rparr>\<rparr>)))"

definition TreeEntry_set_sha :: "TreeEntry \<Rightarrow> PyObject \<Rightarrow> (failure + int) \<times> TreeEntry" where
  "TreeEntry_set_sha self val =
     (case PyString_AsString val of
        Inl e \<Rightarrow> (Inl e, self)
      | Inr hex \<Rightarrow>
          (case git_oid_mkstr hex of
             None \<Rightarrow>
               (Inl (Raised PyExc_ValueError (Message (''Invalid hex SHA '' @ quoted hex))),
                self)
           | Some oid \<Rightarrow>
               (let (entry, tr) =
                      git_tree_entry_set_id (Object_obj (TreeEntry_tree self))
                        (TreeEntry_entry self) oid
                in (Inr 0,
                    \<lparr>TreeEntry_entry = entry,
                     TreeEntry_tree = (TreeEntry_tree self)\<lparr>Object_obj := tr\<rparr>\<rparr>))))"

text \<open>
  \<^verbatim>\<open>TreeEntry_to_object\<close>: the result of \<^verbatim>\<open>wrap_object\<close> is returned as it is (the
  ownership bit stays as \<^verbatim>\<open>tp_alloc\<close> zeroed it).
\<close>

definition TreeEntry_to_object :: "git_env \<Rightarrow> TreeEntry \<Rightarrow> failure + Object" where
  "TreeEntry_to_object g self =
     (case git_tree_entry_2object g (TreeEntry_entry self) of
        None \<Rightarrow>
          Inl (Raised PyExc_KeyError
                (ExcObject (PyString (git_oid_fmt (git_tree_entry_id (TreeEntry_entry self))))))
      | Some ob \<Rightarrow> wrap_object g ob (Object_repo (TreeEntry_tree self)))"

subsection \<open>Tree\<close>

definition Tree_init :: "git_env \<Rightarrow> PyObject \<Rightarrow> PyObject option \<Rightarrow> failure + Object" where
  "Tree_init g args kwds =
     (case object_init_check ''Tree'' args kwds of
        Inl e \<Rightarrow> Inl e
      | Inr repo \<Rightarrow>
          (case git_tree_new g (Repository_repo repo) of
             None \<Rightarrow> Inl (Raised PyExc_MemoryError NoValue)
           | Some tr \<Rightarrow>
               Inr \<lparr>ob_type = TreeType, Object_repo = repo, Object_own_obj = True,
                    Object_obj = tr\<rparr>))"

definition Blob_init :: "git_env \<Rightarrow> PyObject \<Rightarrow> PyObject option \<Rightarrow> failure + Object" where
  "Blob_init g args kwds =
     (case object_init_check ''blob'' args kwds of
        Inl e \<Rightarrow> Inl e
      | Inr repo \<Rightarrow>
          (case git_object_new g (Repository_repo repo) GIT_OBJ_BLOB of
             None \<Rightarrow> Inl (Raised PyExc_MemoryError NoValue)
           | Some blob \<Rightarrow>
               Inr \<lparr>ob_type = BlobType, Object_repo = repo, Object_own_obj = True,
                    Object_obj = blob\<rparr>))"

text \<open>\<^verbatim>\<open>Tree_len\<close>: the cast of the entry count to \<^verbatim>\<open>Py_ssize_t\<close> keeps its 64 bits.\<close>

definition Tree_len :: "Object \<Rightarrow> c_long" where
  "Tree_len self = git_tree_entrycount (Object_obj self)"

definition wrap_tree_entry :: "git_env \<Rightarrow> git_tree_entry \<Rightarrow> Object \<Rightarrow> failure + TreeEntry" where
  "wrap_tree_entry g entry tr =
     (case tp_alloc g () of
        Inl e \<Rightarrow> Inl e
      | Inr u \<Rightarrow> Inr \<lparr>TreeEntry_entry = entry, TreeEntry_tree = tr\<rparr>)"

definition Tree_getitem_by_name :: "git_env \<Rightarrow> Object \<Rightarrow> PyObject \<Rightarrow> failure + TreeEntry" where
  "Tree_getitem_by_name g self py_name =
     (let name = PyString_AS_STRING py_name in
      case git_tree_entry_byname (Object_obj self) name of
        None \<Rightarrow> Inl (Raised PyExc_KeyError (ExcObject py_name))
      | Some entry \<Rightarrow> wrap_tree_entry g entry self)"

text \<open>
  \<^verbatim>\<open>Tree_fix_index\<close>: \<open>slen\<close> is the entry count read as a signed long; \<open>len + index\<close>
  is computed in \<^verbatim>\<open>size_t\<close> (it wraps) and stored in the long; the result is cut to
  \<^verbatim>\<open>int\<close>.
\<close>

definition Tree_fix_index :: "Object \<Rightarrow> PyObject \<Rightarrow> failure + c_int" where
  "Tree_fix_index self py_index =
     (case PyInt_AsLong py_index of
        Inl e \<Rightarrow> Inl e
      | Inr index \<Rightarrow>
          (let len = git_tree_entrycount (Object_obj self);
               slen = (len :: c_long)
           in if sint slen \<le> sint index then Inl (Raised PyExc_IndexError (ExcObject py_index))
              else if sint index < sint (- slen)
                then Inl (Raised PyExc_IndexError (ExcObject py_index))
              else Inr (ucast (if sint index < 0 then len + index else index))))"

definition Tree_getitem_by_index :: "git_env \<Rightarrow> Object \<Rightarrow> PyObject \<Rightarrow> failure + TreeEntry" where
  "Tree_getitem_by_index g self py_index =
     (case Tree_fix_index self py_index of
        Inl e \<Rightarrow> Inl e
      | Inr index \<Rightarrow>
          (case git_tree_entry_byindex (Object_obj self) index of
             None \<Rightarrow> Inl (Raised PyExc_IndexError (ExcObject py_index))
           | Some entry \<Rightarrow> wrap_tree_entry g entry self))"

definition Tree_getitem :: "git_env \<Rightarrow> Object \<Rightarrow> PyObject \<Rightarrow> failure + TreeEntry" where
  "Tree_getitem g self val =
     (if PyString_Check val then Tree_getitem_by_name g self val
      else if PyInt_Check val then Tree_getitem_by_index g self val
      else Inl (Raised PyExc_TypeError (Message ''Expected int or str for tree index.'')))"

definition Tree_delitem_by_name :: "Object \<Rightarrow> PyObject \<Rightarrow> (failure + int) \<times> Object" where
  "Tree_delitem_by_name self name =
     (let (err, tr) = git_tree_remove_entry_byname (Object_obj self) (PyString_AS_STRING name)
      in if err < 0 then (Inl (Raised PyExc_KeyError (ExcObject name)), self\<lparr>Object_obj := tr\<rparr>)
         else (Inr 0, self\<lparr>Object_obj := tr\<rparr>))"

definition Tree_delitem_by_index :: "Object \<Rightarrow> PyObject \<Rightarrow> (failure + int) \<times> Object" where
  "Tree_delitem_by_index self py_index =
     (case Tree_fix_index self py_index of
        Inl e \<Rightarrow> (Inl e, self)
      | Inr index \<Rightarrow>
          (let (err, tr) = git_tree_remove_entry_byindex (Object_obj self) index
           in if err < 0
              then (Inl (Raised PyExc_IndexError (ExcObject py_index)), self\<lparr>Object_obj := tr\<rparr>)
              else (Inr 0, self\<lparr>Object_obj := tr\<rparr>)))"

text \<open>
  \<^verbatim>\<open>Tree_delitem\<close> is the \<^verbatim>\<open>mp_ass_subscript\<close> slot: \<open>val\<close> is the assigned value, or
  NULL (\<open>None\<close>) for a deletion.
\<close>

definition Tree_delitem :: "Object \<Rightarrow> PyObject \<Rightarrow> PyObject option \<Rightarrow> (failure + int) \<times> Object" where
  "Tree_delitem self name val =
     (case val of
        Some v \<Rightarrow>
          (Inl (Raised PyExc_ValueError
                 (Message ''Cannot set TreeEntry directly; use add_entry.'')), self)
      | None \<Rightarrow>
          if PyString_Check name then Tree_delitem_by_name self name
          else if PyInt_Check name then Tree_delitem_by_index self name
          else (Inl (Raised PyExc_TypeError (Message ''Expected int or str for tree index.'')),
                self))"

definition Tree_add_entry :: "git_env \<Rightarrow> Object \<Rightarrow> PyObject \<Rightarrow> (failure + PyObject) \<times> Object" where
  "Tree_add_entry g self args =
     (case PyArg_ParseTuple_ssi args of
        Inl e \<Rightarrow> (Inl e, self)
      | Inr (hex, name, attributes) \<Rightarrow>
          (case git_oid_mkstr hex of
             None \<Rightarrow>
               (Inl (Raised PyExc_ValueError (Message (''Invalid hex SHA '' @ quoted hex))),
                self)
           | Some oid \<Rightarrow>
               (let (err, tr) = git_tree_add_entry g (Object_obj self) oid name attributes
                in if err < 0
                   then (Inl (Raised PyExc_MemoryError NoValue), self\<lparr>Object_obj := tr\<rparr>)
                   else (Inr Py_None, self\<lparr>Object_obj := tr\<rparr>))))"

text \<open>The four known kinds of object.\<close>

definition known_type :: "int \<Rightarrow> bool" where
  "known_type t \<longleftrightarrow> t = GIT_OBJ_COMMIT \<or> t = GIT_OBJ_TREE \<or> t = GIT_OBJ_BLOB \<or> t = GIT_OBJ_TAG"

text \<open>The position an index denotes in a tree of \<open>n\<close> entries: a negative index counts from the end.\<close>

definition normal_index :: "nat \<Rightarrow> int \<Rightarrow> int" where
  "normal_index n k = (if k < 0 then int n + k else k)"

section \<open>The lifecycle of an object\<close>

text \<open>
  Which wrappers a program can hold, and whether the object behind each has been
  written: a wrapper comes from a constructor (never written), from a lookup or from
  resolving a tree entry (the object is in the database), and from then on passes through
  the module's mutating calls (for a tree also those of its entries); a successful
  \<^verbatim>\<open>write\<close> makes it written.
\<close>

inductive lifecycle :: "bool \<Rightarrow> Object \<Rightarrow> bool" where
  new_commit: "Commit_init g args kwds = Inr self \<Longrightarrow> lifecycle False self"
| new_tree: "Tree_init g args kwds = Inr self \<Longrightarrow> lifecycle False self"
| new_blob: "Blob_init g args kwds = Inr self \<Longrightarrow> lifecycle False self"
| looked_up: "Repository_getitem g repo v = Inr self \<Longrightarrow> lifecycle True self"
| resolved: "TreeEntry_to_object g entry = Inr self \<Longrightarrow> lifecycle True self"
| written:
    "lifecycle w self \<Longrightarrow> Object_write g self = (Inr r, self', g') \<Longrightarrow> lifecycle True self'"
| write_failed:
    "lifecycle w self \<Longrightarrow> Object_write g self = (Inl e, self', g') \<Longrightarrow> lifecycle w self'"
| set_message:
    "lifecycle w self \<Longrightarrow> Commit_set_message self v = (r, self') \<Longrightarrow> lifecycle w self'"
| set_committer:
    "lifecycle w self \<Longrightarrow> Commit_set_committer self v = (r, self') \<Longrightarrow> lifecycle w self'"
| set_author:
    "lifecycle w self \<Longrightarrow> Commit_set_author self v = (r, self') \<Longrightarrow> lifecycle w self'"
| add_entry:
    "lifecycle w self \<Longrightarrow> Tree_add_entry g self args = (r, self') \<Longrightarrow> lifecycle w self'"
| delitem:
    "lifecycle w self \<Longrightarrow> Tree_delitem self key v = (r, self') \<Longrightarrow> lifecycle w self'"
| entry_set_attributes:
    "lifecycle w (TreeEntry_tree entry) \<Longrightarrow> TreeEntry_set_attributes entry v = (r, entry') \<Longrightarrow>
       lifecycle w (TreeEntry_tree entry')"
| entry_set_name:
    "lifecycle w (TreeEntry_tree entry) \<Longrightarrow> TreeEntry_set_name entry v = (r, entry') \<Longrightarrow>
       lifecycle w (TreeEntry_tree entry')"
| entry_set_sha:
    "lifecycle w (TreeEntry_tree entry) \<Longrightarrow> TreeEntry_set_sha entry v = (r, entry') \<Longrightarrow>
       lifecycle w (TreeEntry_tree entry')"

section \<open>A small repository\<close>

text \<open>
  One repository (handle 0) whose database holds a single blob, a second id that is in no
  database, and a storage collaborator that serialises an object to its message.
\<close>

definition stored_hex :: string where
  "stored_hex = ''0123456789abcdef0123456789abcdef01234567''"

definition stored_oid :: git_oid where
  "stored_oid = Oid [0x01, 0x23, 0x45, 0x67, 0x89, 0xab, 0xcd, 0xef, 0x01, 0x23,
                     0x45, 0x67, 0x89, 0xab, 0xcd, 0xef, 0x01, 0x23, 0x45, 0x67]"

definition absent_hex :: string where
  "absent_hex = ''ffffffffffffffffffffffffffffffffffffffff''"

definition absent_oid :: git_oid where
  "absent_oid = Oid [0xff, 0xff, 0xff, 0xff, 0xff, 0xff, 0xff, 0xff, 0xff, 0xff,
                     0xff, 0xff, 0xff, 0xff, 0xff, 0xff, 0xff, 0xff, 0xff, 0xff]"

definition blank_object :: git_object where
  "blank_object =
     \<lparr>object_id = None, object_type = GIT_OBJ_BLOB, object_owner = 0,
      object_modified = False, commit_message = [], commit_author = None,
      commit_committer = None, tree_entries = []\<rparr>"

definition small_env :: git_env where
  "small_env =
     \<lparr>odb = (\<lambda>r. if r = 0 then [stored_oid \<mapsto> (GIT_OBJ_BLOB, ''hello'')] else Map.empty),
      loaded = (\<lambda>r. {}),
      parse = (\<lambda>t bytes. blank_object),
      writeback = commit_message,
      hash = (\<lambda>t bytes. stored_oid),
      odb_write_error = False,
      out_of_memory = False,
      NDEBUG = False\<rparr>"

definition small_repo :: Repository where
  "small_repo = \<lparr>Repository_repo = 0\<rparr>"

definition fresh_commit :: Object where
  "fresh_commit =
     \<lparr>ob_type = CommitType, Object_repo = small_repo, Object_own_obj = True,
      Object_obj = blank_object\<lparr>object_type := GIT_OBJ_COMMIT, object_modified := True\<rparr>\<rparr>"

definition stored_blob :: Object where
  "stored_blob =
     \<lparr>ob_type = BlobType, Object_repo = small_repo, Object_own_obj = False,
      Object_obj = blank_object\<lparr>object_id := Some stored_oid\<rparr>\<rparr>"

definition empty_env :: git_env where
  "empty_env = small_env\<lparr>odb := (\<lambda>r. Map.empty)\<rparr>"

text \<open>The same repository with a type tag outside the known set stored under the id.\<close>

definition corrupt_env :: git_env where
  "corrupt_env = small_env\<lparr>odb := (\<lambda>r. [stored_oid \<mapsto> (9, ''x'')])\<rparr>"

definition entry_a :: git_tree_entry where
  "entry_a = \<lparr>entry_attr = 33188, entry_filename = ''a.txt'', entry_oid = stored_oid,
               entry_owner = 0\<rparr>"

definition entry_b :: git_tree_entry where
  "entry_b = \<lparr>entry_attr = 33188, entry_filename = ''b.txt'', entry_oid = absent_oid,
               entry_owner = 0\<rparr>"

text \<open>A tree of two entries: the first points to the stored blob, the second to the absent id.\<close>

definition small_tree :: Object where
  "small_tree =
     \<lparr>ob_type = TreeType, Object_repo = small_repo, Object_own_obj = True,
      Object_obj = blank_object\<lparr>object_type := GIT_OBJ_TREE, object_modified := True,
                                tree_entries := [entry_a, entry_b]\<rparr>\<rparr>"

text \<open>The same repository when the database refuses every write.\<close>

definition full_env :: git_env where
  "full_env = small_env\<lparr>odb_write_error := True\<rparr>"

section \<open>Properties of the hex codec\<close>

lemma from_hex_to_hex:
  assumes "from_hex c = Some n"
  shows "n < 16 \<and> to_hex n = c"
proof -
  define m where "m = (of_char c :: nat)"
  from assms have n: "n = (if m \<le> 57 then m - 48 else m - 87)"
    and "(48 \<le> m \<and> m \<le> 57) \<or> (97 \<le> m \<and> m \<le> 102)"
    by (auto simp: from_hex_def m_def Let_def split: if_splits)
  then have "m \<in> {48, 49, 50, 51, 52, 53, 54, 55, 56, 57, 97, 98, 99, 100, 101, 102}"
    by simp arith
  then have "n < 16 \<and> of_char (to_hex n) = m"
    unfolding n by (elim insertE emptyE; simp add: to_hex_def)
  then have "n < 16" and "(of_char (to_hex n) :: nat) = of_char c"
    by (simp_all add: m_def)
  then show ?thesis by simp
qed

lemma byte_of_nibbles:
  assumes "h < 16" "l < 16"
  shows "unat (of_nat (16 * h + l) :: 8 word) div 16 = h"
    and "unat (of_nat (16 * h + l) :: 8 word) mod 16 = l"
proof -
  have "16 * h + l < 256" using assms by simp
  then have "unat (of_nat (16 * h + l) :: 8 word) = 16 * h + l"
    by (simp only: unat_of_nat) simp
  then show "unat (of_nat (16 * h + l) :: 8 word) div 16 = h"
    and "unat (of_nat (16 * h + l) :: 8 word) mod 16 = l"
    using assms by simp_all
qed

lemma hex_pairs_fmt:
  "hex_pairs s = Some bs \<Longrightarrow> git_oid_fmt (Oid bs) = s"
proof (induction s arbitrary: bs rule: hex_pairs.induct)
  case 1
  then show ?case by simp
next
  case (2 a)
  then show ?case by simp
next
  case (3 a b r)
  from "3.prems" obtain h l bs' where
    h: "from_hex a = Some h" and l: "from_hex b = Some l" and r: "hex_pairs r = Some bs'"
    and bs: "bs = of_nat (16 * h + l) # bs'"
    by (auto split: option.splits)
  from "3.IH" [OF h l r] have "git_oid_fmt (Oid bs') = r" .
  moreover from from_hex_to_hex [OF h] from_hex_to_hex [OF l]
  have "h < 16" "to_hex h = a" "l < 16" "to_hex l = b" by simp_all
  ultimately show ?case
    by (simp add: bs byte_of_nibbles del: of_nat_add of_nat_mult)
qed

lemma git_oid_fmt_mkstr: "git_oid_mkstr s = Some oid \<Longrightarrow> git_oid_fmt oid = s"
  by (auto simp: git_oid_mkstr_def hex_pairs_fmt simp del: git_oid_fmt.simps split: if_splits)

lemma from_hex_NUL: "from_hex (CHR 0x00) = None"
  by (simp add: from_hex_def)

lemma hex_pairs_no_NUL: "hex_pairs s = Some bs \<Longrightarrow> CHR 0x00 \<notin> set s"
  by (induction s arbitrary: bs rule: hex_pairs.induct)
     (auto simp: from_hex_NUL split: option.splits)

lemma git_oid_mkstr_no_NUL: "git_oid_mkstr s = Some oid \<Longrightarrow> CHR 0x00 \<notin> set s"
  by (auto simp: git_oid_mkstr_def hex_pairs_no_NUL split: if_splits)

lemma c_str_no_NUL: "CHR 0x00 \<notin> set s \<Longrightarrow> c_str s = s"
  by (auto simp: c_str_def takeWhile_eq_all_conv)

section \<open>Facts about the small repository\<close>

lemmas git_otype_defs =
  GIT_OBJ_ANY_def GIT_OBJ_BAD_def GIT_OBJ_COMMIT_def GIT_OBJ_TREE_def GIT_OBJ_BLOB_def
  GIT_OBJ_TAG_def

lemma stored_hex_oid: "git_oid_mkstr stored_hex = Some stored_oid"
  by (simp add: stored_hex_def stored_oid_def git_oid_mkstr_def from_hex_def)

lemma absent_hex_oid: "git_oid_mkstr absent_hex = Some absent_oid"
  by (simp add: absent_hex_def absent_oid_def git_oid_mkstr_def from_hex_def)

lemma c_str_stored_hex: "c_str stored_hex = stored_hex"
  by (simp add: c_str_def stored_hex_def)

lemma c_str_absent_hex: "c_str absent_hex = absent_hex"
  by (simp add: c_str_def absent_hex_def)

lemma absent_oid_absent: "odb small_env 0 absent_oid = None"
  by (simp add: small_env_def absent_oid_def stored_oid_def)

lemma stored_oid_stored: "odb small_env 0 stored_oid = Some (GIT_OBJ_BLOB, ''hello'')"
  by (simp add: small_env_def)

lemma Commit_init_fresh:
  "Commit_init small_env (PyTuple [PyRepository small_repo]) None = Inr fresh_commit"
  by (simp add: Commit_init_def object_init_check_def PyArg_ParseTuple_O_def
      git_commit_new_def git_object_new_def small_env_def small_repo_def fresh_commit_def
      blank_object_def)

lemma Repository_getitem_stored:
  "Repository_getitem small_env small_repo (PyString stored_hex) = Inr stored_blob"
  by (simp add: Repository_getitem_def c_str_stored_hex stored_hex_oid
      git_repository_lookup_def git_repository_database_def wrap_object_def
      git_object_type_def tp_alloc_def small_env_def small_repo_def stored_blob_def
      blank_object_def git_otype_defs)

lemma small_tree_entries: "tree_entries (Object_obj small_tree) = [entry_a, entry_b]"
  by (simp add: small_tree_def blank_object_def)

lemma small_env_memory: "\<not> out_of_memory small_env"
  by (simp add: small_env_def)

section \<open>Properties of the library calls and of the wrappers\<close>

lemma wrap_object_obj: "wrap_object g ob repo = Inr py \<Longrightarrow> Object_obj py = ob"
  by (auto simp: wrap_object_def Let_def split: sum.splits)

lemma lookup_id:
  "git_repository_lookup g r oid ty = Some ob \<Longrightarrow> object_id ob = Some oid"
  by (auto simp: git_repository_lookup_def split: option.splits if_splits)

lemma Repository_getitem_id:
  assumes "Repository_getitem g repo v = Inr self"
  shows "\<exists>hex oid. PyString_AsString v = Inr hex \<and> git_oid_mkstr hex = Some oid \<and>
           object_id (Object_obj self) = Some oid"
  using assms
  by (auto simp: Repository_getitem_def split: sum.splits option.splits
      dest!: wrap_object_obj lookup_id)

lemma TreeEntry_to_object_id:
  assumes "TreeEntry_to_object g entry = Inr self"
  shows "object_id (Object_obj self) = Some (entry_oid (TreeEntry_entry entry))"
  using assms
  by (auto simp: TreeEntry_to_object_def git_tree_entry_2object_def git_tree_entry_id_def
      split: option.splits dest!: wrap_object_obj lookup_id)

lemma init_id:
  "Commit_init g args kwds = Inr self \<Longrightarrow> object_id (Object_obj self) = None"
  "Tree_init g args kwds = Inr self \<Longrightarrow> object_id (Object_obj self) = None"
  "Blob_init g args kwds = Inr self \<Longrightarrow> object_id (Object_obj self) = None"
  by (auto simp: Commit_init_def Tree_init_def Blob_init_def git_commit_new_def
      git_tree_new_def git_object_new_def split: sum.splits option.splits if_splits)

lemma Object_write_ok_id:
  "Object_write g self = (Inr r, self', g') \<Longrightarrow> object_id (Object_obj self') \<noteq> None"
  by (auto simp: Object_write_def git_object_write_def Let_def split: if_splits prod.splits)

lemma Object_write_failed_same:
  "Object_write g self = (Inl e, self', g') \<Longrightarrow> self' = self \<and> g' = g"
  by (auto simp: Object_write_def git_object_write_def Let_def split: if_splits prod.splits)

lemma setters_id:
  "Commit_set_message self v = (r, self') \<Longrightarrow>
     object_id (Object_obj self') = object_id (Object_obj self)"
  "Commit_set_committer self v = (r, self') \<Longrightarrow>
     object_id (Object_obj self') = object_id (Object_obj self)"
  "Commit_set_author self v = (r, self') \<Longrightarrow>
     object_id (Object_obj self') = object_id (Object_obj self)"
  by (auto simp: Commit_set_message_def Commit_set_committer_def Commit_set_author_def
      git_commit_set_message_def git_commit_set_committer_def git_commit_set_author_def
      split: if_splits sum.splits prod.splits)

lemma Tree_add_entry_id:
  "Tree_add_entry g self args = (r, self') \<Longrightarrow>
     object_id (Object_obj self') = object_id (Object_obj self)"
  by (auto simp: Tree_add_entry_def git_tree_add_entry_def
      split: if_splits sum.splits prod.splits option.splits)

lemma Tree_delitem_id:
  "Tree_delitem self key v = (r, self') \<Longrightarrow>
     object_id (Object_obj self') = object_id (Object_obj self)"
  by (auto simp: Tree_delitem_def Tree_delitem_by_name_def Tree_delitem_by_index_def
      git_tree_remove_entry_byname_def git_tree_remove_entry_byindex_def
      split: if_splits sum.splits prod.splits option.splits)

lemma entry_setters_id:
  "TreeEntry_set_attributes entry v = (r, entry') \<Longrightarrow>
     object_id (Object_obj (TreeEntry_tree entry')) = object_id (Object_obj (TreeEntry_tree entry))"
  "TreeEntry_set_name entry v = (r, entry') \<Longrightarrow>
     object_id (Object_obj (TreeEntry_tree entry')) = object_id (Object_obj (TreeEntry_tree entry))"
  "TreeEntry_set_sha entry v = (r, entry') \<Longrightarrow>
     object_id (Object_obj (TreeEntry_tree entry')) = object_id (Object_obj (TreeEntry_tree entry))"
  by (auto simp: TreeEntry_set_attributes_def TreeEntry_set_name_def TreeEntry_set_sha_def
      git_tree_entry_set_attributes_def git_tree_entry_set_name_def git_tree_entry_set_id_def
      split: sum.splits option.splits)

lemma lifecycle_id:
  "lifecycle w self \<Longrightarrow> (object_id (Object_obj self) = None) = (\<not> w)"
proof (induction rule: lifecycle.induct)
  case (looked_up g repo v self)
  then show ?case by (auto dest: Repository_getitem_id)
next
  case (resolved g entry self)
  then show ?case by (auto dest: TreeEntry_to_object_id)
next
  case (written w self g r self' g')
  then show ?case by (auto dest: Object_write_ok_id)
next
  case (write_failed w self g e self' g')
  then show ?case by (auto dest: Object_write_failed_same)
qed (simp_all add: init_id setters_id Tree_add_entry_id Tree_delitem_id entry_setters_id)

lemma Object_read_raw_missing:
  assumes "git_object_id (Object_obj self) = Some oid"
    and "odb g (git_object_owner (Object_obj self)) oid = None"
  shows "Object_read_raw g self =
           Inl (Raised PyExc_RuntimeError (Message ''Failed to read object''))"
  using assms
  by (simp add: Object_read_raw_def repository_raw_read_def git_repository_database_def
      git_odb_read_def)

lemma wrap_object_known:
  assumes "\<not> out_of_memory g"
  shows "git_object_type ob = GIT_OBJ_COMMIT \<Longrightarrow>
           wrap_object g ob repo =
             Inr \<lparr>ob_type = CommitType, Object_repo = repo, Object_own_obj = False,
                  Object_obj = ob\<rparr>"
    and "git_object_type ob = GIT_OBJ_TREE \<Longrightarrow>
           wrap_object g ob repo =
             Inr \<lparr>ob_type = TreeType, Object_repo = repo, Object_own_obj = False,
                  Object_obj = ob\<rparr>"
    and "git_object_type ob = GIT_OBJ_BLOB \<Longrightarrow>
           wrap_object g ob repo =
             Inr \<lparr>ob_type = BlobType, Object_repo = repo, Object_own_obj = False,
                  Object_obj = ob\<rparr>"
    and "git_object_type ob = GIT_OBJ_TAG \<Longrightarrow>
           wrap_object g ob repo =
             Inr \<lparr>ob_type = ObjectType, Object_repo = repo, Object_own_obj = False,
                  Object_obj = ob\<rparr>"
  using assms by (simp_all add: wrap_object_def tp_alloc_def git_otype_defs)

lemma wrap_object_unknown:
  assumes "\<not> known_type (git_object_type ob)"
  shows "wrap_object g ob repo = Inl (if NDEBUG g then NullWithoutException else AssertionFailed)"
  using assms by (simp add: wrap_object_def known_type_def)

lemma wrap_object_Inr:
  assumes "wrap_object g ob repo = Inr py"
  shows "known_type (git_object_type ob) \<and> Object_obj py = ob \<and> Object_repo py = repo"
  using assms
  by (auto simp: wrap_object_def known_type_def Let_def split: sum.splits if_splits)

lemma Repository_getitem_stored_type:
  assumes "git_oid_mkstr (c_str s) = Some oid"
    and "odb g (Repository_repo self) oid = Some (t, bytes)"
    and "\<not> out_of_memory g"
  shows "Repository_getitem g self (PyString s) =
           (case wrap_object g
                  ((parse g t bytes)\<lparr>object_id := Some oid, object_type := t,
                     object_owner := Repository_repo self, object_modified := False\<rparr>) self of
              Inl e \<Rightarrow> Inl e
            | Inr py \<Rightarrow> Inr (py\<lparr>Object_own_obj := False\<rparr>))"
  using assms
  by (simp add: Repository_getitem_def git_repository_lookup_def git_repository_database_def)

lemma lookup_found:
  assumes "odb g r oid = Some (t, bytes)" and "\<not> out_of_memory g"
  shows "git_repository_lookup g r oid GIT_OBJ_ANY =
           Some ((parse g t bytes)\<lparr>object_id := Some oid, object_type := t, object_owner := r,
                                  object_modified := False\<rparr>)"
  using assms by (simp add: git_repository_lookup_def git_repository_database_def)

lemma lookup_absent:
  assumes "odb g r oid = None"
  shows "git_repository_lookup g r oid ty = None"
  using assms by (simp add: git_repository_lookup_def git_repository_database_def)

lemma lookup_Some:
  assumes "git_repository_lookup g r oid ty = Some ob"
  shows "object_id ob = Some oid \<and> object_owner ob = r \<and>
         (\<exists>bytes. odb g r oid = Some (object_type ob, bytes))"
  using assms
  by (auto simp: git_repository_lookup_def git_repository_database_def
      split: option.splits if_splits)

lemma wrap_object_total:
  assumes "known_type (git_object_type ob)" and "\<not> out_of_memory g"
  shows "\<exists>ty. wrap_object g ob repo =
           Inr \<lparr>ob_type = ty, Object_repo = repo, Object_own_obj = False, Object_obj = ob\<rparr>"
  using assms by (auto simp: wrap_object_def known_type_def tp_alloc_def)

lemma Object_read_raw_stored:
  assumes "git_object_id (Object_obj self) = Some oid"
    and "odb g (git_object_owner (Object_obj self)) oid = Some (t, bytes)"
  shows "Object_read_raw g self = Inr (PyString bytes)"
  using assms
  by (simp add: Object_read_raw_def repository_raw_read_def git_repository_database_def
      git_odb_read_def)

lemma Repository_getitem_Inr:
  assumes "Repository_getitem g self (PyString s) = Inr py"
    and "git_oid_mkstr (c_str s) = Some oid"
  shows "git_object_id (Object_obj py) = Some oid \<and>
         git_object_owner (Object_obj py) = Repository_repo self \<and>
         (\<exists>t bytes. odb g (Repository_repo self) oid = Some (t, bytes))"
proof -
  from assms obtain ob py' where ob: "git_repository_lookup g (Repository_repo self) oid GIT_OBJ_ANY = Some ob"
    and w: "wrap_object g ob self = Inr py'" and py: "py = py'\<lparr>Object_own_obj := False\<rparr>"
    by (auto simp: Repository_getitem_def split: option.splits sum.splits)
  from wrap_object_obj [OF w] py have "Object_obj py = ob" by simp
  with lookup_Some [OF ob] show ?thesis
    by (auto simp: git_object_id_def git_object_owner_def)
qed

lemma ssL_arity:
  "length xs \<noteq> 3 \<Longrightarrow> PyArg_ParseTuple_ssL (PyTuple xs) = Inl (Raised PyExc_TypeError ApiText)"
  by (auto simp: PyArg_ParseTuple_ssL_def split: list.splits)

lemma ssL_not_tuple:
  "(\<forall>xs. v \<noteq> PyTuple xs) \<Longrightarrow> PyArg_ParseTuple_ssL v = Inl (Raised PyExc_SystemError ApiText)"
  by (cases v) (simp_all add: PyArg_ParseTuple_ssL_def)

lemma convert_L_not_number:
  "\<not> is_number t \<Longrightarrow> convert_L t = Inl (Raised PyExc_TypeError ApiText)"
  by (cases t) simp_all

lemma ssL_not_number:
  assumes "\<not> is_number t"
  shows "\<exists>e. PyArg_ParseTuple_ssL (PyTuple [a, b, t]) = Inl e"
    and "convert_s a = Inr name \<Longrightarrow> convert_s b = Inr email \<Longrightarrow>
           PyArg_ParseTuple_ssL (PyTuple [a, b, t]) = Inl (Raised PyExc_TypeError ApiText)"
  using convert_L_not_number [OF assms]
  by (auto simp: PyArg_ParseTuple_ssL_def split: sum.splits)

lemma ssL_float:
  assumes "convert_s a = Inr name" and "convert_s b = Inr email"
    and "- (2 ^ 63) \<le> float_int m e" and "float_int m e < 2 ^ 63"
  shows "PyArg_ParseTuple_ssL (PyTuple [a, b, PyFloat m e]) =
           Inr (name, email, word_of_int (float_int m e))"
  using assms by (simp add: PyArg_ParseTuple_ssL_def PyLong_AsLong_def)

lemma setter_failure_unchanged:
  "fst (Commit_set_message commit v) = Inl e \<Longrightarrow> snd (Commit_set_message commit v) = commit"
  "fst (Commit_set_committer commit v) = Inl e \<Longrightarrow> snd (Commit_set_committer commit v) = commit"
  "fst (Commit_set_author commit v) = Inl e \<Longrightarrow> snd (Commit_set_author commit v) = commit"
  by (auto simp: Commit_set_message_def Commit_set_committer_def Commit_set_author_def
      split: if_splits sum.splits prod.splits)

subsection \<open>Index arithmetic\<close>

lemma sint_word_of_int_64:
  "- (2 ^ 63) \<le> k \<Longrightarrow> k < 2 ^ 63 \<Longrightarrow> sint (word_of_int k :: 64 word) = k"
  by (simp add: sint_sbintrunc' signed_take_bit_int_eq_self)

lemma sint_word_of_int_32:
  "- (2 ^ 31) \<le> k \<Longrightarrow> k < 2 ^ 31 \<Longrightarrow> sint (word_of_int k :: 32 word) = k"
  by (simp add: sint_sbintrunc' signed_take_bit_int_eq_self)

lemma ucast_64_32_word_of_int:
  "(ucast (word_of_int k :: 64 word) :: 32 word) = word_of_int k"
  by (rule ucast_down_wi) (simp add: is_down)

lemma sint_of_nat_64:
  assumes "n < 2 ^ 63"
  shows "sint (word_of_nat n :: 64 word) = int n"
proof -
  have "sint (word_of_int (int n) :: 64 word) = int n"
    using assms by (intro sint_word_of_int_64) simp_all
  then show ?thesis by simp
qed

lemma sint_neg_of_nat_64:
  assumes "n < 2 ^ 63"
  shows "sint (- word_of_nat n :: 64 word) = - int n"
proof -
  have "sint (word_of_int (- int n) :: 64 word) = - int n"
    using assms by (intro sint_word_of_int_64) simp_all
  then show ?thesis by simp
qed

lemma ucast_index:
  "(ucast (i :: 64 word) :: 32 word) = word_of_int (sint i)"
proof -
  have "(ucast (word_of_int (sint i) :: 64 word) :: 32 word) = word_of_int (sint i)"
    by (rule ucast_64_32_word_of_int)
  then show ?thesis by simp
qed

lemma sint_ucast_small:
  assumes "- (2 ^ 31) \<le> sint (w :: 64 word)" and "sint w < 2 ^ 31"
  shows "sint (ucast w :: 32 word) = sint w"
  unfolding ucast_index using assms by (rule sint_word_of_int_32)

lemma sint_index_sum:
  assumes "n < 2 ^ 63" and "- int n \<le> sint i" and "sint i < 0"
  shows "sint (word_of_nat n + i :: 64 word) = int n + sint i"
proof -
  have "(word_of_nat n + i :: 64 word) = word_of_int (int n + sint i)"
    by simp
  moreover have "sint (word_of_int (int n + sint i) :: 64 word) = int n + sint i"
    using assms by (intro sint_word_of_int_64) simp_all
  ultimately show ?thesis by simp
qed

lemma Tree_fix_index_out_of_range:
  assumes "length (tree_entries (Object_obj self)) < 2 ^ 31"
    and "int (length (tree_entries (Object_obj self))) \<le> sint i \<or>
         sint i < - int (length (tree_entries (Object_obj self)))"
  shows "Tree_fix_index self (PyInt i) = Inl (Raised PyExc_IndexError (ExcObject (PyInt i)))"
proof -
  have n: "length (tree_entries (Object_obj self)) < 2 ^ 63" using assms(1) by simp
  from assms(2) show ?thesis
    by (auto simp: Tree_fix_index_def Let_def git_tree_entrycount_def
        sint_of_nat_64 [OF n] sint_neg_of_nat_64 [OF n])
qed

lemma Tree_fix_index_in_range:
  assumes "length (tree_entries (Object_obj self)) < 2 ^ 31"
    and "- int (length (tree_entries (Object_obj self))) \<le> sint i"
    and "sint i < int (length (tree_entries (Object_obj self)))"
  shows "\<exists>idx. Tree_fix_index self (PyInt i) = Inr idx \<and>
           sint idx = normal_index (length (tree_entries (Object_obj self))) (sint i)"
proof -
  define n where "n = length (tree_entries (Object_obj self))"
  have n: "n < 2 ^ 63" and n31: "int n < 2 ^ 31" using assms(1) by (simp_all add: n_def)
  have lo: "- int n \<le> sint i" and hi: "sint i < int n" using assms(2,3) by (simp_all add: n_def)
  show ?thesis
  proof (cases "sint i < 0")
    case True
    from sint_index_sum [OF n lo True]
    have sum: "sint (word_of_nat n + i :: 64 word) = int n + sint i" .
    with lo True n31 have "sint (ucast (word_of_nat n + i :: 64 word) :: 32 word) = int n + sint i"
      by (subst sint_ucast_small) simp_all
    with True lo hi show ?thesis
      by (simp add: Tree_fix_index_def Let_def git_tree_entrycount_def n_def [symmetric]
          sint_of_nat_64 [OF n] sint_neg_of_nat_64 [OF n] normal_index_def)
  next
    case False
    with hi n31 have "sint (ucast i :: 32 word) = sint i"
      by (subst sint_ucast_small) simp_all
    with False lo hi show ?thesis
      by (simp add: Tree_fix_index_def Let_def git_tree_entrycount_def n_def [symmetric]
          sint_of_nat_64 [OF n] sint_neg_of_nat_64 [OF n] normal_index_def)
  qed
qed

lemma normal_index_range:
  assumes "- int n \<le> k" "k < int n"
  shows "0 \<le> normal_index n k \<and> normal_index n k < int n"
  using assms by (simp add: normal_index_def)

lemma Tree_getitem_by_index_in_range:
  assumes "length (tree_entries (Object_obj self)) < 2 ^ 31"
    and "- int (length (tree_entries (Object_obj self))) \<le> sint i"
    and "sint i < int (length (tree_entries (Object_obj self)))"
  shows "Tree_getitem_by_index g self (PyInt i) =
           wrap_tree_entry g
             (tree_entries (Object_obj self) !
                nat (normal_index (length (tree_entries (Object_obj self))) (sint i))) self"
proof -
  define n where "n = length (tree_entries (Object_obj self))"
  define p where "p = normal_index n (sint i)"
  from normal_index_range [of n "sint i"] assms(2,3)
  have p: "0 \<le> p" "nat p < n" by (simp_all add: n_def p_def nat_less_iff)
  from Tree_fix_index_in_range [OF assms] obtain idx
    where idx: "Tree_fix_index self (PyInt i) = Inr idx" and "sint idx = p"
    by (auto simp: n_def p_def)
  with p show ?thesis
    by (simp add: Tree_getitem_by_index_def git_tree_entry_byindex_def
        n_def [symmetric] p_def [symmetric])
qed

lemma Tree_getitem_by_index_out_of_range:
  assumes "length (tree_entries (Object_obj self)) < 2 ^ 31"
    and "int (length (tree_entries (Object_obj self))) \<le> sint i \<or>
         sint i < - int (length (tree_entries (Object_obj self)))"
  shows "Tree_getitem_by_index g self (PyInt i) =
           Inl (Raised PyExc_IndexError (ExcObject (PyInt i)))"
  by (simp add: Tree_getitem_by_index_def Tree_fix_index_out_of_range [OF assms])

lemma Tree_len_sint:
  assumes "length (tree_entries (Object_obj self)) < 2 ^ 31"
  shows "sint (Tree_len self) = int (length (tree_entries (Object_obj self)))"
  using assms by (simp add: Tree_len_def git_tree_entrycount_def sint_of_nat_64)

lemma Tree_getitem_last:
  assumes "length (tree_entries (Object_obj self)) < 2 ^ 31"
  shows "Tree_getitem_by_index g self (PyInt (- 1)) =
         Tree_getitem_by_index g self (PyInt (Tree_len self - 1))"
proof (cases "tree_entries (Object_obj self) = []")
  case True
  then show ?thesis by (simp add: Tree_len_def git_tree_entrycount_def)
next
  case False
  define n where "n = length (tree_entries (Object_obj self))"
  from False have "0 < n" unfolding n_def by (cases "tree_entries (Object_obj self)") simp_all
  then have pos: "0 < int n" by simp
  have "Tree_len self - 1 = word_of_int (int n - 1)"
    by (simp add: Tree_len_def git_tree_entrycount_def n_def)
  moreover have "sint (word_of_int (int n - 1) :: 64 word) = int n - 1"
    using assms by (intro sint_word_of_int_64) (simp_all add: n_def)
  ultimately have last: "sint (Tree_len self - 1) = int n - 1" by simp
  have lo1: "- int n \<le> sint (- 1 :: 64 word)" and hi1: "sint (- 1 :: 64 word) < int n"
    using pos by simp_all
  have lo2: "- int n \<le> sint (Tree_len self - 1)" and hi2: "sint (Tree_len self - 1) < int n"
    using pos by (simp_all add: last)
  have "normal_index n (sint (- 1 :: 64 word)) = normal_index n (sint (Tree_len self - 1))"
    using pos by (simp add: last normal_index_def)
  with Tree_getitem_by_index_in_range [OF assms lo1 [unfolded n_def] hi1 [unfolded n_def], of g]
    Tree_getitem_by_index_in_range [OF assms lo2 [unfolded n_def] hi2 [unfolded n_def], of g]
  show ?thesis by (simp add: n_def)
qed

subsection \<open>Adding entries and writing objects\<close>

lemma ssi_parsed:
  assumes "CHR 0x00 \<notin> set hex" and "CHR 0x00 \<notin> set name"
    and "- (2 ^ 31) \<le> sint a" and "sint a < 2 ^ 31"
  shows "PyArg_ParseTuple_ssi (PyTuple [PyString hex, PyString name, PyInt a]) =
           Inr (hex, name, ucast a)"
  using assms by (simp add: PyArg_ParseTuple_ssi_def convert_i_def)

lemma ssi_NUL:
  assumes "CHR 0x00 \<in> set hex"
  shows "PyArg_ParseTuple_ssi (PyTuple [PyString hex, b, c]) = Inl (Raised PyExc_TypeError ApiText)"
  using assms by (simp add: PyArg_ParseTuple_ssi_def)

lemma find_snoc:
  "find P xs = None \<Longrightarrow> P e \<Longrightarrow> find P (xs @ [e]) = Some e"
  by (induction xs) (auto split: if_splits)

lemma Tree_add_entry_ok:
  assumes "git_oid_mkstr hex = Some oid" and "CHR 0x00 \<notin> set name"
    and "- (2 ^ 31) \<le> sint a" and "sint a < 2 ^ 31" and "\<not> out_of_memory g"
  shows "Tree_add_entry g self (PyTuple [PyString hex, PyString name, PyInt a]) =
     (Inr Py_None,
      self\<lparr>Object_obj := (Object_obj self)
        \<lparr>tree_entries := tree_entries (Object_obj self) @
           [\<lparr>entry_attr = ucast a, entry_filename = name, entry_oid = oid,
             entry_owner = object_owner (Object_obj self)\<rparr>],
         object_modified := True\<rparr>\<rparr>)"
  using assms git_oid_mkstr_no_NUL [OF assms(1)]
  by (simp add: Tree_add_entry_def ssi_parsed git_tree_add_entry_def)

lemma Tree_add_entry_bad_hex:
  assumes "git_oid_mkstr hex = None" and "CHR 0x00 \<notin> set hex" and "CHR 0x00 \<notin> set name"
    and "- (2 ^ 31) \<le> sint a" and "sint a < 2 ^ 31"
  shows "Tree_add_entry g self (PyTuple [PyString hex, PyString name, PyInt a]) =
     (Inl (Raised PyExc_ValueError (Message (''Invalid hex SHA '' @ quoted hex))), self)"
  using assms by (simp add: Tree_add_entry_def ssi_parsed)

lemma Tree_add_entry_odb:
  "Tree_add_entry (g\<lparr>odb := d\<rparr>) self args = Tree_add_entry g self args"
  by (simp add: Tree_add_entry_def git_tree_add_entry_def split: sum.splits option.splits)

lemma Object_write_noop:
  assumes "git_object_id (Object_obj self) \<noteq> None" and "\<not> object_modified (Object_obj self)"
  shows "Object_write g self = (Inr Py_None, self, g)"
  using assms by (simp add: Object_write_def git_object_write_def git_object_id_def)

lemma Object_write_failure:
  assumes "git_object_id (Object_obj self) = None \<or> object_modified (Object_obj self)"
    and "odb_write_error g \<or> out_of_memory g"
  shows "Object_write g self =
           (Inl (Raised PyExc_RuntimeError (Message ''Failed to write object to repo'')), self, g)"
  using assms by (auto simp: Object_write_def git_object_write_def git_object_id_def)

lemma Object_write_stores:
  assumes "git_object_id (Object_obj self) = None \<or> object_modified (Object_obj self)"
    and "\<not> odb_write_error g" and "\<not> out_of_memory g"
  shows "Object_write g self =
     (Inr Py_None,
      self\<lparr>Object_obj := (Object_obj self)
        \<lparr>object_id := Some (hash g (object_type (Object_obj self)) (writeback g (Object_obj self))),
         object_modified := False\<rparr>\<rparr>,
      g\<lparr>odb := (odb g)
           (object_owner (Object_obj self) :=
              (odb g (object_owner (Object_obj self)))
                (hash g (object_type (Object_obj self)) (writeback g (Object_obj self)) \<mapsto>
                   (object_type (Object_obj self), writeback g (Object_obj self))))\<rparr>)"
  using assms by (auto simp: Object_write_def git_object_write_def git_object_id_def Let_def)

subsection \<open>Removing and changing entries\<close>

lemma remove_first_length:
  "find P xs = Some e \<Longrightarrow> Suc (length (remove_first P xs)) = length xs"
  by (induction xs) (auto split: if_splits)

lemma find_remove_first_distinct:
  "distinct (map f xs) \<Longrightarrow> find (\<lambda>x. f x = k) (remove_first (\<lambda>x. f x = k) xs) = None"
proof (induction xs)
  case Nil
  then show ?case by simp
next
  case (Cons x xs)
  show ?case
  proof (cases "f x = k")
    case True
    from Cons.prems have "f x \<notin> f ` set xs" by simp
    then have "\<And>y. y \<in> set xs \<Longrightarrow> f y \<noteq> f x" by (metis imageI)
    with True show ?thesis by (simp add: find_None_iff)
  next
    case False
    with Cons show ?thesis by simp
  qed
qed

lemma update_first_found:
  "find P xs = Some e \<Longrightarrow> update_first (\<lambda>x. x = e) f xs = update_first P f xs"
proof (induction xs)
  case Nil
  then show ?case by simp
next
  case (Cons x xs)
  show ?case
  proof (cases "P x")
    case True
    with Cons.prems show ?thesis by simp
  next
    case False
    with Cons.prems have found: "find P xs = Some e" by simp
    then have "P e" by (auto simp: find_Some_iff)
    with False have "x \<noteq> e" by blast
    with False Cons.IH [OF found] show ?thesis by simp
  qed
qed

lemma Tree_delitem_by_name_ok:
  assumes "git_tree_entry_byname (Object_obj self) name = Some old" and "CHR 0x00 \<notin> set name"
  shows "Tree_delitem self (PyString name) None =
     (Inr 0,
      self\<lparr>Object_obj := (Object_obj self)
        \<lparr>tree_entries :=
           remove_first (\<lambda>e. entry_filename e = name) (tree_entries (Object_obj self)),
         object_modified := True\<rparr>\<rparr>)"
  using assms
  by (simp add: Tree_delitem_def Tree_delitem_by_name_def git_tree_remove_entry_byname_def
      c_str_no_NUL)

lemma Tree_getitem_by_name_Inr:
  assumes "Tree_getitem g self (PyString name) = Inr entry"
  shows "TreeEntry_tree entry = self \<and>
         find (\<lambda>e. entry_filename e = c_str name) (tree_entries (Object_obj self)) =
           Some (TreeEntry_entry entry)"
  using assms
  by (auto simp: Tree_getitem_def Tree_getitem_by_name_def git_tree_entry_byname_def
      wrap_tree_entry_def tp_alloc_def split: option.splits if_splits)

lemma Tree_getitem_added:
  assumes "git_tree_entry_byname (Object_obj self) name = None"
    and "CHR 0x00 \<notin> set name" and "\<not> out_of_memory g"
  shows "Tree_getitem g
           (self\<lparr>Object_obj := (Object_obj self)
              \<lparr>tree_entries := tree_entries (Object_obj self) @ [e\<lparr>entry_filename := name\<rparr>],
               object_modified := True\<rparr>\<rparr>) (PyString name) =
         Inr \<lparr>TreeEntry_entry = e\<lparr>entry_filename := name\<rparr>,
              TreeEntry_tree = self\<lparr>Object_obj := (Object_obj self)
                \<lparr>tree_entries := tree_entries (Object_obj self) @ [e\<lparr>entry_filename := name\<rparr>],
                 object_modified := True\<rparr>\<rparr>\<rparr>"
  using assms
  by (simp add: Tree_getitem_def Tree_getitem_by_name_def git_tree_entry_byname_def
      find_snoc c_str_no_NUL wrap_tree_entry_def tp_alloc_def)

subsection \<open>The state a lookup leaves\<close>










section \<open>Repository lookup and membership\<close>

text \<open>
  C1, as amended. The hex id is read as a C string: the bytes of the Python string up to
  its first NUL byte (all of them when there is none). For every input that
  \<^verbatim>\<open>PyString_AsString\<close> accepts, \<^verbatim>\<open>Repository_getitem\<close> (lookup) raises \<^verbatim>\<open>ValueError\<close> (the
  invalid-argument failure) when that C string is malformed hex, and \<^verbatim>\<open>RuntimeError\<close>
  ``Failed to look up hex SHA'' (the not-found failure) when the id decoded from it is not
  in the repository's database; on that same absent id \<^verbatim>\<open>Repository_contains\<close> does not
  fail and returns 0 (false).
\<close>

theorem lookup_failures:
  "(PyString_AsString v = Inr hex \<and> git_oid_mkstr hex = None \<longrightarrow>
      Repository_getitem g self v =
        Inl (Raised PyExc_ValueError (Message (''Invalid hex SHA '' @ quoted hex)))) \<and>
   (PyString_AsString v = Inr hex \<and> git_oid_mkstr hex = Some oid \<and>
    odb g (Repository_repo self) oid = None \<longrightarrow>
      Repository_getitem g self v =
        Inl (Raised PyExc_RuntimeError (Message (''Failed to look up hex SHA '' @ quoted hex))) \<and>
      Repository_contains g self v = Inr 0) \<and>
   PyString_AsString (PyString s) = Inr (c_str s) \<and>
   (CHR 0x00 \<notin> set s \<longrightarrow> c_str s = s)"
  by (simp add: Repository_getitem_def Repository_contains_def git_repository_lookup_def
      git_repository_database_def git_odb_exists_def c_str_no_NUL)

text \<open>
  The claim as first stated has every malformed hex string refused. The 42 bytes made of
  the stored id's hex, a NUL byte and one more character are not the hex of an id, yet
  lookup returns the stored blob for them and membership answers 1.
\<close>

theorem nul_suffix_counterexample:
  "git_oid_mkstr (stored_hex @ [CHR 0x00, CHR ''x'']) = None \<and>
   Repository_getitem small_env small_repo (PyString (stored_hex @ [CHR 0x00, CHR ''x''])) =
     Inr stored_blob \<and>
   Repository_contains small_env small_repo (PyString (stored_hex @ [CHR 0x00, CHR ''x''])) =
     Inr 1"
proof -
  have cut: "c_str (stored_hex @ [CHR 0x00, CHR ''x'']) = stored_hex"
    by (simp add: c_str_def stored_hex_def)
  have long: "git_oid_mkstr (stored_hex @ [CHR 0x00, CHR ''x'']) = None"
    by (simp add: git_oid_mkstr_def stored_hex_def)
  have get: "Repository_getitem small_env small_repo
      (PyString (stored_hex @ [CHR 0x00, CHR ''x''])) =
      Repository_getitem small_env small_repo (PyString stored_hex)"
    by (simp add: Repository_getitem_def cut c_str_stored_hex)
  have has: "Repository_contains small_env small_repo
      (PyString (stored_hex @ [CHR 0x00, CHR ''x''])) = Inr 1"
    by (simp add: Repository_contains_def cut stored_hex_oid git_odb_exists_def
        git_repository_database_def small_repo_def stored_oid_stored)
  from long get has Repository_getitem_stored show ?thesis by simp
qed

theorem lookup_failures_witness:
  "Repository_getitem small_env small_repo (PyString ''zz'') =
     Inl (Raised PyExc_ValueError (Message (''Invalid hex SHA '' @ quoted ''zz''))) \<and>
   Repository_getitem small_env small_repo (PyString absent_hex) =
     Inl (Raised PyExc_RuntimeError
           (Message (''Failed to look up hex SHA '' @ quoted absent_hex))) \<and>
   Repository_contains small_env small_repo (PyString absent_hex) = Inr 0"
proof -
  have zz: "PyString_AsString (PyString ''zz'') = Inr ''zz''"
    by (simp add: c_str_def)
  have bad: "git_oid_mkstr ''zz'' = None"
    by (simp add: git_oid_mkstr_def)
  have str: "PyString_AsString (PyString absent_hex) = Inr absent_hex"
    by (simp add: c_str_absent_hex)
  have none: "odb small_env (Repository_repo small_repo) absent_oid = None"
    by (simp add: small_repo_def absent_oid_absent)
  from lookup_failures
    [where v = "PyString ''zz''" and hex = "''zz''" and g = small_env and self = small_repo]
    zz bad
  have 1: "Repository_getitem small_env small_repo (PyString ''zz'') =
     Inl (Raised PyExc_ValueError (Message (''Invalid hex SHA '' @ quoted ''zz'')))"
    by blast
  from lookup_failures
    [where v = "PyString absent_hex" and hex = absent_hex and oid = absent_oid
       and g = small_env and self = small_repo]
    str absent_hex_oid none
  have 2: "Repository_getitem small_env small_repo (PyString absent_hex) =
     Inl (Raised PyExc_RuntimeError
           (Message (''Failed to look up hex SHA '' @ quoted absent_hex))) \<and>
     Repository_contains small_env small_repo (PyString absent_hex) = Inr 0"
    by blast
  from 1 2 show ?thesis by simp
qed

section \<open>Positional access to a tree\<close>

text \<open>
  C2. For every tree whose entry count fits the C \<^verbatim>\<open>int\<close> that \<^verbatim>\<open>Tree_fix_index\<close> returns
  (fewer than \<open>2 ^ 31\<close> entries) and every index that is a Python \<^verbatim>\<open>int\<close>, positional get rejects an
  index at or above the length and an index below minus the length with \<^verbatim>\<open>IndexError\<close>,
  already in \<^verbatim>\<open>Tree_fix_index\<close>, before any entry is looked up; an index in between is
  normalised against the current length (a negative index counts from the end) and yields
  the entry at that position; and \<open>get(-1)\<close> equals \<open>get(length() - 1)\<close>.
\<close>

theorem positional_get:
  assumes "length (tree_entries (Object_obj self)) < 2 ^ 31"
  shows "(sint (Tree_len self) \<le> sint i \<or> sint i < - sint (Tree_len self) \<longrightarrow>
            Tree_fix_index self (PyInt i) = Inl (Raised PyExc_IndexError (ExcObject (PyInt i))) \<and>
            Tree_getitem g self (PyInt i) = Inl (Raised PyExc_IndexError (ExcObject (PyInt i)))) \<and>
         (- sint (Tree_len self) \<le> sint i \<and> sint i < sint (Tree_len self) \<longrightarrow>
            Tree_getitem g self (PyInt i) =
              wrap_tree_entry g
                (tree_entries (Object_obj self) !
                   nat (normal_index (length (tree_entries (Object_obj self))) (sint i))) self) \<and>
         Tree_getitem g self (PyInt (- 1)) = Tree_getitem g self (PyInt (Tree_len self - 1))"
proof -
  note len = Tree_len_sint [OF assms]
  have get: "Tree_getitem g self (PyInt j) = Tree_getitem_by_index g self (PyInt j)" for j
    by (simp add: Tree_getitem_def)
  have out: "sint (Tree_len self) \<le> sint i \<or> sint i < - sint (Tree_len self) \<Longrightarrow>
      Tree_fix_index self (PyInt i) = Inl (Raised PyExc_IndexError (ExcObject (PyInt i))) \<and>
      Tree_getitem g self (PyInt i) = Inl (Raised PyExc_IndexError (ExcObject (PyInt i)))"
    using Tree_fix_index_out_of_range [OF assms, of i]
      Tree_getitem_by_index_out_of_range [OF assms, of i g]
    by (simp add: len get)
  have inside: "- sint (Tree_len self) \<le> sint i \<and> sint i < sint (Tree_len self) \<Longrightarrow>
      Tree_getitem g self (PyInt i) =
        wrap_tree_entry g
          (tree_entries (Object_obj self) !
             nat (normal_index (length (tree_entries (Object_obj self))) (sint i))) self"
    using Tree_getitem_by_index_in_range [OF assms, of i g] by (simp add: len get)
  from out inside Tree_getitem_last [OF assms, of g] show ?thesis
    by (simp only: get) blast
qed

theorem positional_get_witness:
  "Tree_getitem small_env small_tree (PyInt (- 1)) =
     Inr \<lparr>TreeEntry_entry = entry_b, TreeEntry_tree = small_tree\<rparr> \<and>
   Tree_getitem small_env small_tree (PyInt 1) =
     Inr \<lparr>TreeEntry_entry = entry_b, TreeEntry_tree = small_tree\<rparr> \<and>
   Tree_getitem small_env small_tree (PyInt 2) =
     Inl (Raised PyExc_IndexError (ExcObject (PyInt 2))) \<and>
   Tree_getitem small_env small_tree (PyInt (- 3)) =
     Inl (Raised PyExc_IndexError (ExcObject (PyInt (- 3))))"
proof -
  have small: "length (tree_entries (Object_obj small_tree)) < 2 ^ 31"
    by (simp add: small_tree_entries)
  have len: "Tree_len small_tree = 2"
    by (simp add: Tree_len_def git_tree_entrycount_def small_tree_entries)
  have wrap: "wrap_tree_entry small_env e small_tree =
      Inr \<lparr>TreeEntry_entry = e, TreeEntry_tree = small_tree\<rparr>" for e
    by (simp add: wrap_tree_entry_def tp_alloc_def small_env_memory)
  from positional_get [OF small, of "- 1" small_env]
  have 1: "Tree_getitem small_env small_tree (PyInt (- 1)) =
      Inr \<lparr>TreeEntry_entry = entry_b, TreeEntry_tree = small_tree\<rparr>"
    by (simp add: len wrap small_tree_entries normal_index_def)
  from positional_get [OF small, of "- 1" small_env]
  have "Tree_getitem small_env small_tree (PyInt (- 1)) =
      Tree_getitem small_env small_tree (PyInt (Tree_len small_tree - 1))"
    by blast
  then have 2: "Tree_getitem small_env small_tree (PyInt 1) =
      Tree_getitem small_env small_tree (PyInt (- 1))"
    by (simp add: len)
  from positional_get [OF small, of 2 small_env]
  have 3: "Tree_getitem small_env small_tree (PyInt 2) =
      Inl (Raised PyExc_IndexError (ExcObject (PyInt 2)))"
    by (simp add: len)
  from positional_get [OF small, of "- 3" small_env]
  have 4: "Tree_getitem small_env small_tree (PyInt (- 3)) =
      Inl (Raised PyExc_IndexError (ExcObject (PyInt (- 3))))"
    by (simp add: len)
  from 1 2 3 4 show ?thesis by simp
qed

section \<open>Writing an object\<close>

text \<open>
  C3, as amended. For every object, \<^verbatim>\<open>write\<close> returns \<^verbatim>\<open>None\<close>, not the object id, or
  fails with \<^verbatim>\<open>RuntimeError\<close> ``Failed to write object to repo'' (the storage failure), and
  a failed write leaves the object and the database untouched. After a successful write
  the object has an id; when the object was new or changed, that id is the hash of its
  serialised state, read back through \<^verbatim>\<open>sha\<close>, and the database holds the serialised
  state under it. Writing an unchanged persisted object is a no-op that keeps the existing
  id.
\<close>

theorem write_returns_none:
  "(fst (Object_write g self) = Inr Py_None \<or>
    fst (Object_write g self) =
      Inl (Raised PyExc_RuntimeError (Message ''Failed to write object to repo''))) \<and>
   (\<forall>e. fst (Object_write g self) = Inl e \<longrightarrow>
        fst (snd (Object_write g self)) = self \<and> snd (snd (Object_write g self)) = g) \<and>
   (fst (Object_write g self) = Inr Py_None \<longrightarrow>
      Object_get_sha (fst (snd (Object_write g self))) \<noteq> Py_None) \<and>
   (fst (Object_write g self) = Inr Py_None \<and>
    (git_object_id (Object_obj self) = None \<or> object_modified (Object_obj self)) \<longrightarrow>
      Object_get_sha (fst (snd (Object_write g self))) =
        PyString (git_oid_fmt (hash g (object_type (Object_obj self))
                                 (writeback g (Object_obj self)))) \<and>
      Object_read_raw (snd (snd (Object_write g self))) (fst (snd (Object_write g self))) =
        Inr (PyString (writeback g (Object_obj self)))) \<and>
   (git_object_id (Object_obj self) \<noteq> None \<and> \<not> object_modified (Object_obj self) \<longrightarrow>
      Object_write g self = (Inr Py_None, self, g))"
proof (cases "git_object_id (Object_obj self) \<noteq> None \<and> \<not> object_modified (Object_obj self)")
  case True
  then have "Object_write g self = (Inr Py_None, self, g)"
    by (simp add: Object_write_noop)
  with True show ?thesis
    by (auto simp: Object_get_sha_def split: option.splits)
next
  case False
  note unchanged = False
  then have changed: "git_object_id (Object_obj self) = None \<or> object_modified (Object_obj self)"
    by blast
  show ?thesis
  proof (cases "odb_write_error g \<or> out_of_memory g")
    case True
    from Object_write_failure [OF changed True] unchanged show ?thesis by auto
  next
    case False
    then have ok: "\<not> odb_write_error g" "\<not> out_of_memory g" by simp_all
    note w = Object_write_stores [OF changed ok]
    let ?oid = "hash g (object_type (Object_obj self)) (writeback g (Object_obj self))"
    let ?self' = "fst (snd (Object_write g self))"
    let ?g' = "snd (snd (Object_write g self))"
    have sha: "Object_get_sha ?self' = PyString (git_oid_fmt ?oid)"
      by (simp add: w Object_get_sha_def git_object_id_def)
    have "Object_read_raw ?g' ?self' = Inr (PyString (writeback g (Object_obj self)))"
      by (rule Object_read_raw_stored
            [where oid = ?oid and t = "object_type (Object_obj self)"])
         (simp_all add: w git_object_id_def git_object_owner_def)
    with sha unchanged show ?thesis by (auto simp: w)
  qed
qed

text \<open>
  The claim as first stated has \<^verbatim>\<open>write\<close> return the resulting object id. Writing the
  fresh commit of the small repository returns \<^verbatim>\<open>None\<close>, while the id the object then
  reports is that of the stored hash.
\<close>

theorem write_returns_id_counterexample:
  "fst (Object_write small_env fresh_commit) = Inr Py_None \<and>
   Object_get_sha (fst (snd (Object_write small_env fresh_commit))) = PyString stored_hex \<and>
   fst (Object_write small_env fresh_commit) \<noteq>
     Inr (Object_get_sha (fst (snd (Object_write small_env fresh_commit))))"
proof -
  have "git_object_id (Object_obj fresh_commit) = None \<or> object_modified (Object_obj fresh_commit)"
    by (simp add: fresh_commit_def)
  moreover have "\<not> odb_write_error small_env" by (simp add: small_env_def)
  ultimately have w: "Object_write small_env fresh_commit =
     (Inr Py_None,
      fresh_commit\<lparr>Object_obj := (Object_obj fresh_commit)
        \<lparr>object_id := Some (hash small_env (object_type (Object_obj fresh_commit))
                             (writeback small_env (Object_obj fresh_commit))),
         object_modified := False\<rparr>\<rparr>,
      small_env\<lparr>odb := (odb small_env)
           (object_owner (Object_obj fresh_commit) :=
              (odb small_env (object_owner (Object_obj fresh_commit)))
                (hash small_env (object_type (Object_obj fresh_commit))
                   (writeback small_env (Object_obj fresh_commit)) \<mapsto>
                   (object_type (Object_obj fresh_commit),
                    writeback small_env (Object_obj fresh_commit))))\<rparr>)"
    using small_env_memory by (rule Object_write_stores)
  have "hash small_env (object_type (Object_obj fresh_commit))
          (writeback small_env (Object_obj fresh_commit)) = stored_oid"
    by (simp add: small_env_def)
  with git_oid_fmt_mkstr [OF stored_hex_oid] show ?thesis
    by (simp add: w Object_get_sha_def git_object_id_def)
qed

theorem write_returns_none_witness:
  "fst (Object_write small_env fresh_commit) = Inr Py_None \<and>
   Object_get_sha (fst (snd (Object_write small_env fresh_commit))) = PyString stored_hex \<and>
   Object_read_raw (snd (snd (Object_write small_env fresh_commit)))
     (fst (snd (Object_write small_env fresh_commit))) = Inr (PyString []) \<and>
   Object_write small_env stored_blob = (Inr Py_None, stored_blob, small_env) \<and>
   Object_write full_env fresh_commit =
     (Inl (Raised PyExc_RuntimeError (Message ''Failed to write object to repo'')),
      fresh_commit, full_env)"
proof -
  have new: "git_object_id (Object_obj fresh_commit) = None"
    by (simp add: fresh_commit_def git_object_id_def blank_object_def)
  have old: "git_object_id (Object_obj stored_blob) \<noteq> None \<and>
      \<not> object_modified (Object_obj stored_blob)"
    by (simp add: stored_blob_def git_object_id_def blank_object_def)
  have h: "hash small_env t bs = stored_oid" for t bs
    by (simp add: small_env_def)
  have b: "writeback small_env (Object_obj fresh_commit) = []"
    by (simp add: small_env_def fresh_commit_def blank_object_def)
  have "fst (Object_write full_env fresh_commit) \<noteq> Inr Py_None"
    using new by (simp add: Object_write_def git_object_write_def git_object_id_def
        full_env_def)
  with write_returns_none [of full_env fresh_commit]
  have 1: "Object_write full_env fresh_commit =
     (Inl (Raised PyExc_RuntimeError (Message ''Failed to write object to repo'')),
      fresh_commit, full_env)"
    by (metis prod.collapse)
  have "fst (Object_write small_env fresh_commit) \<noteq>
      Inl (Raised PyExc_RuntimeError (Message ''Failed to write object to repo''))"
    using new small_env_memory
    by (simp add: Object_write_def git_object_write_def git_object_id_def Let_def small_env_def)
  with write_returns_none [of small_env fresh_commit]
  have 2: "fst (Object_write small_env fresh_commit) = Inr Py_None"
    by blast
  with write_returns_none [of small_env fresh_commit] new
  have "Object_get_sha (fst (snd (Object_write small_env fresh_commit))) =
        PyString (git_oid_fmt (hash small_env (object_type (Object_obj fresh_commit))
                                 (writeback small_env (Object_obj fresh_commit)))) \<and>
      Object_read_raw (snd (snd (Object_write small_env fresh_commit)))
        (fst (snd (Object_write small_env fresh_commit))) =
        Inr (PyString (writeback small_env (Object_obj fresh_commit)))"
    by blast
  then have 3: "Object_get_sha (fst (snd (Object_write small_env fresh_commit))) =
        PyString (git_oid_fmt stored_oid)"
    and 4: "Object_read_raw (snd (snd (Object_write small_env fresh_commit)))
        (fst (snd (Object_write small_env fresh_commit))) = Inr (PyString [])"
    unfolding h b by simp_all
  from write_returns_none [of small_env stored_blob] old
  have 5: "Object_write small_env stored_blob = (Inr Py_None, stored_blob, small_env)"
    by blast
  from 1 2 3 4 5 git_oid_fmt_mkstr [OF stored_hex_oid] show ?thesis by simp
qed

section \<open>Dispatch on the stored type tag\<close>

text \<open>
  C4. When \<^verbatim>\<open>Repository_getitem\<close> resolves an id, the wrapper it builds has the Python
  type matching the stored type tag: \<^verbatim>\<open>Commit\<close>, \<^verbatim>\<open>Tree\<close>, \<^verbatim>\<open>Blob\<close>, and the base
  \<^verbatim>\<open>Object\<close> type for a tag (the object keeps the stored tag). A type tag outside the
  four known kinds never yields a wrapper: the call ends in the failed assertion, or, with
  assertions compiled out, in a NULL return.
\<close>

theorem lookup_dispatches_on_type_tag:
  assumes "git_oid_mkstr (c_str s) = Some oid"
    and "odb g (Repository_repo self) oid = Some (t, bytes)"
    and "\<not> out_of_memory g"
  shows "(t = GIT_OBJ_COMMIT \<longrightarrow>
            (\<exists>py. Repository_getitem g self (PyString s) = Inr py \<and> ob_type py = CommitType \<and>
                  git_object_type (Object_obj py) = t)) \<and>
         (t = GIT_OBJ_TREE \<longrightarrow>
            (\<exists>py. Repository_getitem g self (PyString s) = Inr py \<and> ob_type py = TreeType \<and>
                  git_object_type (Object_obj py) = t)) \<and>
         (t = GIT_OBJ_BLOB \<longrightarrow>
            (\<exists>py. Repository_getitem g self (PyString s) = Inr py \<and> ob_type py = BlobType \<and>
                  git_object_type (Object_obj py) = t)) \<and>
         (t = GIT_OBJ_TAG \<longrightarrow>
            (\<exists>py. Repository_getitem g self (PyString s) = Inr py \<and> ob_type py = ObjectType \<and>
                  git_object_type (Object_obj py) = t)) \<and>
         (\<not> known_type t \<longrightarrow>
            Repository_getitem g self (PyString s) =
              Inl (if NDEBUG g then NullWithoutException else AssertionFailed))"
proof -
  let ?ob = "(parse g t bytes)\<lparr>object_id := Some oid, object_type := t,
               object_owner := Repository_repo self, object_modified := False\<rparr>"
  have ty: "git_object_type ?ob = t" by (simp add: git_object_type_def)
  note get = Repository_getitem_stored_type [OF assms]
  have 1: "t = GIT_OBJ_COMMIT \<Longrightarrow> \<exists>py. Repository_getitem g self (PyString s) = Inr py \<and>
      ob_type py = CommitType \<and> git_object_type (Object_obj py) = t"
    using wrap_object_known(1) [OF assms(3), of ?ob self] by (simp add: get git_object_type_def)
  have 2: "t = GIT_OBJ_TREE \<Longrightarrow> \<exists>py. Repository_getitem g self (PyString s) = Inr py \<and>
      ob_type py = TreeType \<and> git_object_type (Object_obj py) = t"
    using wrap_object_known(2) [OF assms(3), of ?ob self] by (simp add: get git_object_type_def)
  have 3: "t = GIT_OBJ_BLOB \<Longrightarrow> \<exists>py. Repository_getitem g self (PyString s) = Inr py \<and>
      ob_type py = BlobType \<and> git_object_type (Object_obj py) = t"
    using wrap_object_known(3) [OF assms(3), of ?ob self] by (simp add: get git_object_type_def)
  have 4: "t = GIT_OBJ_TAG \<Longrightarrow> \<exists>py. Repository_getitem g self (PyString s) = Inr py \<and>
      ob_type py = ObjectType \<and> git_object_type (Object_obj py) = t"
    using wrap_object_known(4) [OF assms(3), of ?ob self] by (simp add: get git_object_type_def)
  have 5: "\<not> known_type t \<Longrightarrow> Repository_getitem g self (PyString s) =
      Inl (if NDEBUG g then NullWithoutException else AssertionFailed)"
    using wrap_object_unknown [of ?ob g self] by (simp add: get git_object_type_def)
  from 1 2 3 4 5 show ?thesis by blast
qed

theorem lookup_dispatches_on_type_tag_witness:
  "(\<exists>py. Repository_getitem small_env small_repo (PyString stored_hex) = Inr py \<and>
         ob_type py = BlobType \<and> git_object_type (Object_obj py) = GIT_OBJ_BLOB) \<and>
   Repository_getitem corrupt_env small_repo (PyString stored_hex) = Inl AssertionFailed"
proof -
  have mk: "git_oid_mkstr (c_str stored_hex) = Some stored_oid"
    by (simp add: c_str_stored_hex stored_hex_oid)
  have blob: "odb small_env (Repository_repo small_repo) stored_oid = Some (GIT_OBJ_BLOB, ''hello'')"
    by (simp add: small_repo_def stored_oid_stored)
  have mem: "\<not> out_of_memory small_env" by (simp add: small_env_def)
  have bad: "odb corrupt_env (Repository_repo small_repo) stored_oid = Some (9, ''x'')"
    by (simp add: corrupt_env_def)
  have mem': "\<not> out_of_memory corrupt_env" by (simp add: corrupt_env_def small_env_def)
  have unknown: "\<not> known_type 9" by (simp add: known_type_def git_otype_defs)
  have assert: "\<not> NDEBUG corrupt_env" by (simp add: corrupt_env_def small_env_def)
  from lookup_dispatches_on_type_tag [OF mk blob mem]
       lookup_dispatches_on_type_tag [OF mk bad mem'] unknown assert
  show ?thesis by simp
qed

section \<open>Commit setters\<close>

text \<open>
  C5, as amended. For every commit, setting the message to a value that is not a string,
  and setting the committer or the author to a value that is not a tuple, to a tuple of
  the wrong arity or to a triple whose timestamp is not a number, fails before any
  mutation: with \<^verbatim>\<open>TypeError\<close> (the invalid-argument failure) for the message, the arity
  and, the name and email being accepted, the timestamp, and with \<^verbatim>\<open>SystemError\<close> for a
  value that is not a tuple. Whenever one of the three setters fails, the commit is
  unchanged. A float timestamp is not refused: it is truncated to an integer and set.
\<close>

theorem setters_validate_first:
  "(\<not> PyString_Check v \<longrightarrow>
      Commit_set_message commit v =
        (Inl (Raised PyExc_TypeError (Message ''Expected string for commit message.'')), commit)) \<and>
   ((\<forall>ys. v \<noteq> PyTuple ys) \<longrightarrow>
      Commit_set_committer commit v = (Inl (Raised PyExc_SystemError ApiText), commit) \<and>
      Commit_set_author commit v = (Inl (Raised PyExc_SystemError ApiText), commit)) \<and>
   (length xs \<noteq> 3 \<longrightarrow>
      Commit_set_committer commit (PyTuple xs) = (Inl (Raised PyExc_TypeError ApiText), commit) \<and>
      Commit_set_author commit (PyTuple xs) = (Inl (Raised PyExc_TypeError ApiText), commit)) \<and>
   (\<not> is_number t \<longrightarrow>
      (\<exists>e. Commit_set_committer commit (PyTuple [a, b, t]) = (Inl e, commit)) \<and>
      (\<exists>e. Commit_set_author commit (PyTuple [a, b, t]) = (Inl e, commit))) \<and>
   (\<not> is_number t \<and> convert_s a = Inr name \<and> convert_s b = Inr email \<longrightarrow>
      Commit_set_committer commit (PyTuple [a, b, t]) =
        (Inl (Raised PyExc_TypeError ApiText), commit) \<and>
      Commit_set_author commit (PyTuple [a, b, t]) =
        (Inl (Raised PyExc_TypeError ApiText), commit)) \<and>
   (convert_s a = Inr name \<and> convert_s b = Inr email \<and>
    - (2 ^ 63) \<le> float_int m e \<and> float_int m e < 2 ^ 63 \<longrightarrow>
      Commit_set_committer commit (PyTuple [a, b, PyFloat m e]) =
        (Inr 0, commit\<lparr>Object_obj := git_commit_set_committer (Object_obj commit) name email
                                         (word_of_int (float_int m e))\<rparr>) \<and>
      Commit_set_author commit (PyTuple [a, b, PyFloat m e]) =
        (Inr 0, commit\<lparr>Object_obj := git_commit_set_author (Object_obj commit) name email
                                         (word_of_int (float_int m e))\<rparr>)) \<and>
   (\<forall>x. fst (Commit_set_message commit v) = Inl x \<longrightarrow> snd (Commit_set_message commit v) = commit) \<and>
   (\<forall>x. fst (Commit_set_committer commit v) = Inl x \<longrightarrow>
        snd (Commit_set_committer commit v) = commit) \<and>
   (\<forall>x. fst (Commit_set_author commit v) = Inl x \<longrightarrow> snd (Commit_set_author commit v) = commit)"
proof -
  have message: "\<not> PyString_Check v \<Longrightarrow> Commit_set_message commit v =
      (Inl (Raised PyExc_TypeError (Message ''Expected string for commit message.'')), commit)"
    by (simp add: Commit_set_message_def)
  have shape: "(\<forall>ys. v \<noteq> PyTuple ys) \<Longrightarrow>
      Commit_set_committer commit v = (Inl (Raised PyExc_SystemError ApiText), commit) \<and>
      Commit_set_author commit v = (Inl (Raised PyExc_SystemError ApiText), commit)"
    by (simp add: Commit_set_committer_def Commit_set_author_def ssL_not_tuple)
  have arity: "length xs \<noteq> 3 \<Longrightarrow>
      Commit_set_committer commit (PyTuple xs) = (Inl (Raised PyExc_TypeError ApiText), commit) \<and>
      Commit_set_author commit (PyTuple xs) = (Inl (Raised PyExc_TypeError ApiText), commit)"
    by (simp add: Commit_set_committer_def Commit_set_author_def ssL_arity)
  have fails: "(\<exists>x. Commit_set_committer commit (PyTuple [a, b, t]) = (Inl x, commit)) \<and>
      (\<exists>x. Commit_set_author commit (PyTuple [a, b, t]) = (Inl x, commit))"
    if "\<not> is_number t"
    using ssL_not_number(1) [OF that, of a b]
    by (auto simp: Commit_set_committer_def Commit_set_author_def)
  have time: "Commit_set_committer commit (PyTuple [a, b, t]) =
        (Inl (Raised PyExc_TypeError ApiText), commit) \<and>
      Commit_set_author commit (PyTuple [a, b, t]) =
        (Inl (Raised PyExc_TypeError ApiText), commit)"
    if "\<not> is_number t" and "convert_s a = Inr name" and "convert_s b = Inr email"
    using ssL_not_number(2) [OF that]
    by (simp add: Commit_set_committer_def Commit_set_author_def)
  have float: "Commit_set_committer commit (PyTuple [a, b, PyFloat m e]) =
        (Inr 0, commit\<lparr>Object_obj := git_commit_set_committer (Object_obj commit) name email
                                         (word_of_int (float_int m e))\<rparr>) \<and>
      Commit_set_author commit (PyTuple [a, b, PyFloat m e]) =
        (Inr 0, commit\<lparr>Object_obj := git_commit_set_author (Object_obj commit) name email
                                         (word_of_int (float_int m e))\<rparr>)"
    if "convert_s a = Inr name" and "convert_s b = Inr email"
      and "- (2 ^ 63) \<le> float_int m e" and "float_int m e < 2 ^ 63"
    using ssL_float [OF that]
    by (simp add: Commit_set_committer_def Commit_set_author_def)
  from message shape arity fails time float setter_failure_unchanged [of commit v]
  show ?thesis by blast
qed

text \<open>
  The claim as first stated has every non-integer timestamp refused. The timestamp 1.5 is
  accepted: the committer is set, with the timestamp 1.
\<close>

theorem float_timestamp_counterexample:
  "Commit_set_committer fresh_commit
     (PyTuple [PyString ''A'', PyString ''a@x'', PyFloat 3 (- 1)]) =
     (Inr 0,
      fresh_commit\<lparr>Object_obj := (Object_obj fresh_commit)
        \<lparr>commit_committer :=
           Some \<lparr>person_name = ''A'', person_email = ''a@x'', person_time = 1\<rparr>,
         object_modified := True\<rparr>\<rparr>) \<and>
   commit_committer (Object_obj fresh_commit) = None"
  by (simp add: Commit_set_committer_def PyArg_ParseTuple_ssL_def PyLong_AsLong_def
      float_int_def git_commit_set_committer_def fresh_commit_def blank_object_def)

theorem setters_validate_first_witness:
  "Commit_set_message fresh_commit (PyInt 7) =
     (Inl (Raised PyExc_TypeError (Message ''Expected string for commit message.'')),
      fresh_commit) \<and>
   Commit_set_committer fresh_commit (PyList [PyString ''A'', PyString ''a@x'', PyInt 5]) =
     (Inl (Raised PyExc_SystemError ApiText), fresh_commit) \<and>
   Commit_set_committer fresh_commit (PyTuple [PyString ''A'', PyString ''a@x'']) =
     (Inl (Raised PyExc_TypeError ApiText), fresh_commit) \<and>
   Commit_set_author fresh_commit (PyTuple [PyString ''A'', PyString ''a@x'', PyString ''now'']) =
     (Inl (Raised PyExc_TypeError ApiText), fresh_commit) \<and>
   commit_author (Object_obj (snd (Commit_set_author fresh_commit
     (PyTuple [PyString ''A'', PyString ''a@x'', PyFloat 3 (- 1)])))) =
     Some \<lparr>person_name = ''A'', person_email = ''a@x'', person_time = 1\<rparr> \<and>
   Commit_get_message (snd (Commit_set_message fresh_commit (PyInt 7))) =
     Commit_get_message fresh_commit"
proof -
  have 1: "\<not> PyString_Check (PyInt 7)" by simp
  have 2: "length [PyString ''A'', PyString ''a@x''] \<noteq> 3" by simp
  have 3: "\<not> is_number (PyString ''now'')" by simp
  have 4: "convert_s (PyString ''A'') = Inr ''A''" "convert_s (PyString ''a@x'') = Inr ''a@x''"
    by simp_all
  have 5: "\<forall>ys. PyList [PyString ''A'', PyString ''a@x'', PyInt 5] \<noteq> PyTuple ys" by simp
  have 6: "float_int 3 (- 1) = 1" by (simp add: float_int_def)
  from setters_validate_first
    [of "PyInt 7" fresh_commit "[PyString ''A'', PyString ''a@x'']" "PyString ''now''"
        "PyString ''A''" "PyString ''a@x''" "''A''" "''a@x''" 3 "- 1"] 1 2 3 4 6
  have a: "Commit_set_message fresh_commit (PyInt 7) =
       (Inl (Raised PyExc_TypeError (Message ''Expected string for commit message.'')),
        fresh_commit)"
    and b: "Commit_set_committer fresh_commit (PyTuple [PyString ''A'', PyString ''a@x'']) =
       (Inl (Raised PyExc_TypeError ApiText), fresh_commit)"
    and c: "Commit_set_author fresh_commit
         (PyTuple [PyString ''A'', PyString ''a@x'', PyString ''now'']) =
       (Inl (Raised PyExc_TypeError ApiText), fresh_commit)"
    and d: "Commit_set_author fresh_commit
         (PyTuple [PyString ''A'', PyString ''a@x'', PyFloat 3 (- 1)]) =
       (Inr 0, fresh_commit\<lparr>Object_obj :=
          git_commit_set_author (Object_obj fresh_commit) ''A'' ''a@x'' (word_of_int 1)\<rparr>)"
    by simp_all
  from setters_validate_first
    [of "PyList [PyString ''A'', PyString ''a@x'', PyInt 5]" fresh_commit] 5
  have e: "Commit_set_committer fresh_commit (PyList [PyString ''A'', PyString ''a@x'', PyInt 5]) =
       (Inl (Raised PyExc_SystemError ApiText), fresh_commit)"
    by blast
  from a b c d e show ?thesis by (simp add: git_commit_set_author_def)
qed

section \<open>Adding an entry to a tree\<close>

text \<open>
  C6. For every tree, \<^verbatim>\<open>add_entry\<close> with a valid 40-character hex id, a name (a C string,
  not yet in the tree) and attribute bits (a C \<^verbatim>\<open>int\<close>) appends a new entry, memory
  permitting: afterwards the length is greater by exactly 1 and get by that name returns
  an entry whose id is the given one. The database is never consulted, so the target may
  be an id that is not stored (a forward reference). Malformed hex raises \<^verbatim>\<open>ValueError\<close>
  (the invalid-argument failure) and leaves the tree unchanged.
\<close>

theorem add_entry_appends:
  assumes "CHR 0x00 \<notin> set name" and "- (2 ^ 31) \<le> sint a" and "sint a < 2 ^ 31"
  shows
    "(git_oid_mkstr hex = Some oid \<and> \<not> out_of_memory g \<and>
      git_tree_entry_byname (Object_obj self) name = None \<longrightarrow>
        (\<exists>self'. Tree_add_entry g self (PyTuple [PyString hex, PyString name, PyInt a]) =
                   (Inr Py_None, self') \<and>
                 tree_entries (Object_obj self') =
                   tree_entries (Object_obj self) @
                     [\<lparr>entry_attr = ucast a, entry_filename = name, entry_oid = oid,
                       entry_owner = object_owner (Object_obj self)\<rparr>] \<and>
                 Tree_len self' = Tree_len self + 1 \<and>
                 (\<exists>e. Tree_getitem g self' (PyString name) = Inr e \<and>
                      git_tree_entry_id (TreeEntry_entry e) = oid \<and>
                      TreeEntry_get_sha e = PyString hex))) \<and>
     (git_oid_mkstr hex = None \<and> CHR 0x00 \<notin> set hex \<longrightarrow>
        Tree_add_entry g self (PyTuple [PyString hex, PyString name, PyInt a]) =
          (Inl (Raised PyExc_ValueError (Message (''Invalid hex SHA '' @ quoted hex))), self)) \<and>
     Tree_add_entry (g\<lparr>odb := d\<rparr>) self (PyTuple [PyString hex, PyString name, PyInt a]) =
       Tree_add_entry g self (PyTuple [PyString hex, PyString name, PyInt a])"
proof -
  let ?args = "PyTuple [PyString hex, PyString name, PyInt a]"
  let ?e = "\<lparr>entry_attr = ucast a, entry_filename = name, entry_oid = oid,
             entry_owner = object_owner (Object_obj self)\<rparr>"
  let ?self' = "self\<lparr>Object_obj := (Object_obj self)
        \<lparr>tree_entries := tree_entries (Object_obj self) @ [?e], object_modified := True\<rparr>\<rparr>"
  have good: "\<exists>self'. Tree_add_entry g self ?args = (Inr Py_None, self') \<and>
      tree_entries (Object_obj self') = tree_entries (Object_obj self) @ [?e] \<and>
      Tree_len self' = Tree_len self + 1 \<and>
      (\<exists>e. Tree_getitem g self' (PyString name) = Inr e \<and>
           git_tree_entry_id (TreeEntry_entry e) = oid \<and> TreeEntry_get_sha e = PyString hex)"
    if mk: "git_oid_mkstr hex = Some oid" and mem: "\<not> out_of_memory g"
      and fresh: "git_tree_entry_byname (Object_obj self) name = None"
  proof -
    have add: "Tree_add_entry g self ?args = (Inr Py_None, ?self')"
      by (rule Tree_add_entry_ok [OF mk assms mem])
    have len: "Tree_len ?self' = Tree_len self + 1"
      by (simp add: Tree_len_def git_tree_entrycount_def)
    from fresh have "git_tree_entry_byname (Object_obj ?self') name = Some ?e"
      by (simp add: git_tree_entry_byname_def find_snoc)
    with mem assms(1) have get: "Tree_getitem g ?self' (PyString name) =
        Inr \<lparr>TreeEntry_entry = ?e, TreeEntry_tree = ?self'\<rparr>"
      by (simp add: Tree_getitem_def Tree_getitem_by_name_def c_str_no_NUL
          wrap_tree_entry_def tp_alloc_def)
    have sha: "TreeEntry_get_sha \<lparr>TreeEntry_entry = ?e, TreeEntry_tree = ?self'\<rparr> = PyString hex"
      using git_oid_fmt_mkstr [OF mk]
      by (simp add: TreeEntry_get_sha_def git_tree_entry_id_def)
    from add len get sha show ?thesis
      by (simp add: git_tree_entry_id_def)
  qed
  have bad: "Tree_add_entry g self ?args =
      (Inl (Raised PyExc_ValueError (Message (''Invalid hex SHA '' @ quoted hex))), self)"
    if "git_oid_mkstr hex = None" and "CHR 0x00 \<notin> set hex"
    by (rule Tree_add_entry_bad_hex [OF that assms])
  from good bad Tree_add_entry_odb [where g = g and d = d and self = self and args = ?args] show ?thesis
    by blast
qed

theorem add_entry_appends_witness:
  "fst (Tree_add_entry small_env small_tree
          (PyTuple [PyString absent_hex, PyString ''c.txt'', PyInt 33188])) = Inr Py_None \<and>
   Tree_len (snd (Tree_add_entry small_env small_tree
          (PyTuple [PyString absent_hex, PyString ''c.txt'', PyInt 33188]))) = 3 \<and>
   (\<exists>e. Tree_getitem small_env
          (snd (Tree_add_entry small_env small_tree
             (PyTuple [PyString absent_hex, PyString ''c.txt'', PyInt 33188])))
          (PyString ''c.txt'') = Inr e \<and>
        TreeEntry_get_sha e = PyString absent_hex) \<and>
   Repository_contains small_env small_repo (PyString absent_hex) = Inr 0 \<and>
   Tree_add_entry small_env small_tree (PyTuple [PyString ''zz'', PyString ''c.txt'', PyInt 33188]) =
     (Inl (Raised PyExc_ValueError (Message (''Invalid hex SHA '' @ quoted ''zz''))), small_tree)"
proof -
  have name: "CHR 0x00 \<notin> set ''c.txt''" by simp
  have lo: "- (2 ^ 31) \<le> sint (33188 :: 64 word)" and hi: "sint (33188 :: 64 word) < 2 ^ 31"
    by simp_all
  have fresh: "git_tree_entry_byname (Object_obj small_tree) ''c.txt'' = None"
    by (simp add: git_tree_entry_byname_def small_tree_entries entry_a_def entry_b_def)
  have len: "Tree_len small_tree = 2"
    by (simp add: Tree_len_def git_tree_entrycount_def small_tree_entries)
  have bad: "git_oid_mkstr ''zz'' = None" by (simp add: git_oid_mkstr_def)
  have nul: "CHR 0x00 \<notin> set ''zz''" by simp
  have absent: "Repository_contains small_env small_repo (PyString absent_hex) = Inr 0"
    by (simp add: Repository_contains_def c_str_absent_hex absent_hex_oid git_odb_exists_def
        git_repository_database_def small_repo_def absent_oid_absent)
  from add_entry_appends [OF name lo hi, of absent_hex absent_oid small_env small_tree]
    absent_hex_oid small_env_memory fresh
  obtain self' where
    "Tree_add_entry small_env small_tree
       (PyTuple [PyString absent_hex, PyString ''c.txt'', PyInt 33188]) = (Inr Py_None, self')"
    "Tree_len self' = Tree_len small_tree + 1"
    "\<exists>e. Tree_getitem small_env self' (PyString ''c.txt'') = Inr e \<and>
         TreeEntry_get_sha e = PyString absent_hex"
    by blast
  moreover from add_entry_appends [OF name lo hi, of "''zz''" absent_oid small_env small_tree]
    bad nul
  have "Tree_add_entry small_env small_tree
      (PyTuple [PyString ''zz'', PyString ''c.txt'', PyInt 33188]) =
      (Inl (Raised PyExc_ValueError (Message (''Invalid hex SHA '' @ quoted ''zz''))), small_tree)"
    by blast
  ultimately show ?thesis using absent by (simp add: len)
qed

section \<open>Resolving a tree entry\<close>

text \<open>
  C7. For every tree entry, \<^verbatim>\<open>to_object\<close> raises \<^verbatim>\<open>KeyError\<close> (the not-found failure)
  carrying the hex of the entry's target id when that id is not in the database; when the
  target is there, with one of the four known kinds and memory permitting, it yields an
  object; and every object it yields has the entry's target id.
\<close>

theorem entry_resolves_to_its_target:
  "(odb g (entry_owner (TreeEntry_entry self)) (entry_oid (TreeEntry_entry self)) = None \<longrightarrow>
      TreeEntry_to_object g self =
        Inl (Raised PyExc_KeyError
              (ExcObject (PyString (git_oid_fmt (entry_oid (TreeEntry_entry self))))))) \<and>
   (\<forall>t bytes.
      odb g (entry_owner (TreeEntry_entry self)) (entry_oid (TreeEntry_entry self)) =
        Some (t, bytes) \<and> known_type t \<and> \<not> out_of_memory g \<longrightarrow>
      (\<exists>py. TreeEntry_to_object g self = Inr py)) \<and>
   (\<forall>py. TreeEntry_to_object g self = Inr py \<longrightarrow>
      git_object_id (Object_obj py) = Some (entry_oid (TreeEntry_entry self)) \<and>
      Object_get_sha py = TreeEntry_get_sha self)"
proof -
  let ?e = "TreeEntry_entry self"
  have missing: "TreeEntry_to_object g self =
      Inl (Raised PyExc_KeyError (ExcObject (PyString (git_oid_fmt (entry_oid ?e)))))"
    if "odb g (entry_owner ?e) (entry_oid ?e) = None"
    using lookup_absent [OF that]
    by (simp add: TreeEntry_to_object_def git_tree_entry_2object_def git_tree_entry_id_def)
  have found: "\<exists>py. TreeEntry_to_object g self = Inr py"
    if "odb g (entry_owner ?e) (entry_oid ?e) = Some (t, bytes)" and "known_type t"
      and "\<not> out_of_memory g" for t bytes
  proof -
    let ?ob = "(parse g t bytes)\<lparr>object_id := Some (entry_oid ?e), object_type := t,
                 object_owner := entry_owner ?e, object_modified := False\<rparr>"
    from that(2) have "known_type (git_object_type ?ob)" by (simp add: git_object_type_def)
    from wrap_object_total [OF this that(3)] lookup_found [OF that(1,3)] show ?thesis
      by (auto simp: TreeEntry_to_object_def git_tree_entry_2object_def git_tree_entry_id_def)
  qed
  have same: "git_object_id (Object_obj py) = Some (entry_oid ?e) \<and>
      Object_get_sha py = TreeEntry_get_sha self"
    if "TreeEntry_to_object g self = Inr py" for py
  proof -
    from that obtain ob where ob: "git_tree_entry_2object g ?e = Some ob"
      and py: "wrap_object g ob (Object_repo (TreeEntry_tree self)) = Inr py"
      by (auto simp: TreeEntry_to_object_def split: option.splits)
    from ob have "object_id ob = Some (entry_oid ?e)"
      by (auto simp: git_tree_entry_2object_def git_tree_entry_id_def dest: lookup_Some)
    with wrap_object_obj [OF py] show ?thesis
      by (simp add: git_object_id_def Object_get_sha_def TreeEntry_get_sha_def
          git_tree_entry_id_def)
  qed
  from missing found same show ?thesis by blast
qed

theorem entry_resolves_to_its_target_witness:
  "TreeEntry_to_object small_env \<lparr>TreeEntry_entry = entry_b, TreeEntry_tree = small_tree\<rparr> =
     Inl (Raised PyExc_KeyError (ExcObject (PyString absent_hex))) \<and>
   (\<exists>py. TreeEntry_to_object small_env
            \<lparr>TreeEntry_entry = entry_a, TreeEntry_tree = small_tree\<rparr> = Inr py \<and>
         Object_get_sha py = PyString stored_hex)"
proof -
  let ?a = "\<lparr>TreeEntry_entry = entry_a, TreeEntry_tree = small_tree\<rparr>"
  let ?b = "\<lparr>TreeEntry_entry = entry_b, TreeEntry_tree = small_tree\<rparr>"
  have gone: "odb small_env (entry_owner (TreeEntry_entry ?b)) (entry_oid (TreeEntry_entry ?b)) = None"
    by (simp add: entry_b_def absent_oid_absent)
  have there: "odb small_env (entry_owner (TreeEntry_entry ?a)) (entry_oid (TreeEntry_entry ?a)) =
      Some (GIT_OBJ_BLOB, ''hello'')"
    by (simp add: entry_a_def stored_oid_stored)
  have blob: "known_type GIT_OBJ_BLOB" by (simp add: known_type_def)
  have fmt_b: "git_oid_fmt (entry_oid (TreeEntry_entry ?b)) = absent_hex"
    using git_oid_fmt_mkstr [OF absent_hex_oid] by (simp add: entry_b_def)
  have sha_a: "TreeEntry_get_sha ?a = PyString stored_hex"
    using git_oid_fmt_mkstr [OF stored_hex_oid]
    by (simp add: TreeEntry_get_sha_def git_tree_entry_id_def entry_a_def)
  from entry_resolves_to_its_target [of small_env ?b] gone
  have 1: "TreeEntry_to_object small_env ?b =
      Inl (Raised PyExc_KeyError (ExcObject (PyString absent_hex)))"
    unfolding fmt_b by blast
  from entry_resolves_to_its_target [of small_env ?a] there blob small_env_memory
  have 2: "\<exists>py. TreeEntry_to_object small_env ?a = Inr py \<and> Object_get_sha py = PyString stored_hex"
    unfolding sha_a by blast
  from 1 2 show ?thesis by simp
qed

section \<open>Object ids over an object's life\<close>

text \<open>
  C8. For every object a program can hold, \<^verbatim>\<open>sha\<close> (\<open>id()\<close>) is \<^verbatim>\<open>None\<close> exactly when the
  object has never been written; \<^verbatim>\<open>read_raw\<close> on a never-written object returns \<^verbatim>\<open>None\<close>
  too and does not fail; \<^verbatim>\<open>read_raw\<close> on an object that has an id whose bytes are
  missing from the database raises \<^verbatim>\<open>RuntimeError\<close> ``Failed to read object'' (the
  not-found failure).
\<close>

theorem absent_id_iff_never_written:
  assumes "lifecycle w self"
  shows "(Object_get_sha self = Py_None \<longleftrightarrow> \<not> w) \<and>
         (\<not> w \<longrightarrow> Object_read_raw g self = Inr Py_None) \<and>
         (\<forall>oid. git_object_id (Object_obj self) = Some oid \<and>
                odb g (git_object_owner (Object_obj self)) oid = None \<longrightarrow>
                Object_read_raw g self =
                  Inl (Raised PyExc_RuntimeError (Message ''Failed to read object'')))"
proof -
  from lifecycle_id [OF assms]
  have id: "(git_object_id (Object_obj self) = None) = (\<not> w)"
    by (simp add: git_object_id_def)
  have sha: "(Object_get_sha self = Py_None) = (git_object_id (Object_obj self) = None)"
    by (simp add: Object_get_sha_def split: option.splits)
  have raw: "git_object_id (Object_obj self) = None \<Longrightarrow> Object_read_raw g self = Inr Py_None"
    by (simp add: Object_read_raw_def)
  from id sha raw show ?thesis
    by (auto intro: Object_read_raw_missing)
qed

theorem absent_id_iff_never_written_witness:
  "lifecycle False fresh_commit \<and> Object_get_sha fresh_commit = Py_None \<and>
   Object_read_raw small_env fresh_commit = Inr Py_None \<and>
   lifecycle True stored_blob \<and> Object_get_sha stored_blob = PyString stored_hex \<and>
   Object_read_raw small_env stored_blob = Inr (PyString ''hello'') \<and>
   Object_read_raw empty_env stored_blob =
     Inl (Raised PyExc_RuntimeError (Message ''Failed to read object''))"
proof -
  have new: "lifecycle False fresh_commit"
    by (rule lifecycle.new_commit [OF Commit_init_fresh])
  have old: "lifecycle True stored_blob"
    by (rule lifecycle.looked_up [OF Repository_getitem_stored])
  have id: "git_object_id (Object_obj stored_blob) = Some stored_oid"
    by (simp add: stored_blob_def git_object_id_def blank_object_def)
  have gone: "odb empty_env (git_object_owner (Object_obj stored_blob)) stored_oid = None"
    by (simp add: empty_env_def)
  from absent_id_iff_never_written [OF new, of small_env]
  have 1: "Object_get_sha fresh_commit = Py_None"
    and 2: "Object_read_raw small_env fresh_commit = Inr Py_None"
    by simp_all
  from absent_id_iff_never_written [OF old, of empty_env] id gone
  have 3: "Object_read_raw empty_env stored_blob =
     Inl (Raised PyExc_RuntimeError (Message ''Failed to read object''))"
    by blast
  have 4: "Object_get_sha stored_blob = PyString stored_hex"
    using git_oid_fmt_mkstr [OF stored_hex_oid]
    by (simp add: Object_get_sha_def id)
  have 5: "Object_read_raw small_env stored_blob = Inr (PyString ''hello'')"
    by (simp add: Object_read_raw_def git_object_id_def repository_raw_read_def
        git_repository_database_def git_odb_read_def git_object_owner_def stored_blob_def
        blank_object_def stored_oid_stored)
  from new old 1 2 3 4 5 show ?thesis by simp
qed

section \<open>Item assignment on a tree\<close>

text \<open>
  C9, as amended. For every tree and every key, of any type, item assignment
  (\<^verbatim>\<open>tree[key] = value\<close>) raises \<^verbatim>\<open>ValueError\<close> ``Cannot set TreeEntry directly; use
  add_entry.'' (the invalid-operation failure) and leaves the tree unchanged. The entry
  under a name is replaced by removing it and adding an entry with that name (in a tree
  of distinct names). Entries are mutable in another way too: the setters of a
  \<^verbatim>\<open>TreeEntry\<close> got from the tree change the name, the id or the attribute bits of that
  entry in place, in the tree.
\<close>

theorem assignment_rejected:
  "Tree_delitem self key (Some v) =
     (Inl (Raised PyExc_ValueError (Message ''Cannot set TreeEntry directly; use add_entry.'')),
      self) \<and>
   (distinct (map entry_filename (tree_entries (Object_obj self))) \<and>
    git_tree_entry_byname (Object_obj self) name = Some old \<and> CHR 0x00 \<notin> set name \<and>
    git_oid_mkstr hex = Some oid \<and> - (2 ^ 31) \<le> sint a \<and> sint a < 2 ^ 31 \<and>
    \<not> out_of_memory g \<longrightarrow>
      (\<exists>self1 self2 e.
         Tree_delitem self (PyString name) None = (Inr 0, self1) \<and>
         Tree_add_entry g self1 (PyTuple [PyString hex, PyString name, PyInt a]) =
           (Inr Py_None, self2) \<and>
         Tree_getitem g self2 (PyString name) = Inr e \<and>
         git_tree_entry_id (TreeEntry_entry e) = oid \<and>
         Tree_len self2 = Tree_len self)) \<and>
   (Tree_getitem g self (PyString name) = Inr entry \<and> PyString_AsString v1 = Inr new \<longrightarrow>
      (\<exists>entry'. TreeEntry_set_name entry v1 = (Inr 0, entry') \<and>
         tree_entries (Object_obj (TreeEntry_tree entry')) =
           update_first (\<lambda>x. entry_filename x = c_str name) (\<lambda>x. x\<lparr>entry_filename := new\<rparr>)
             (tree_entries (Object_obj self)))) \<and>
   (Tree_getitem g self (PyString name) = Inr entry \<and> PyString_AsString v2 = Inr hex2 \<and>
    git_oid_mkstr hex2 = Some oid2 \<longrightarrow>
      (\<exists>entry'. TreeEntry_set_sha entry v2 = (Inr 0, entry') \<and>
         tree_entries (Object_obj (TreeEntry_tree entry')) =
           update_first (\<lambda>x. entry_filename x = c_str name) (\<lambda>x. x\<lparr>entry_oid := oid2\<rparr>)
             (tree_entries (Object_obj self)))) \<and>
   (Tree_getitem g self (PyString name) = Inr entry \<and> PyInt_AsLong v3 = Inr bits \<longrightarrow>
      (\<exists>entry'. TreeEntry_set_attributes entry v3 = (Inr 0, entry') \<and>
         tree_entries (Object_obj (TreeEntry_tree entry')) =
           update_first (\<lambda>x. entry_filename x = c_str name) (\<lambda>x. x\<lparr>entry_attr := ucast bits\<rparr>)
             (tree_entries (Object_obj self))))"
proof -
  let ?P = "\<lambda>e. entry_filename e = name"
  have assign: "Tree_delitem self key (Some v) =
     (Inl (Raised PyExc_ValueError (Message ''Cannot set TreeEntry directly; use add_entry.'')),
      self)"
    by (simp add: Tree_delitem_def)
  have replace: "\<exists>self1 self2 e.
         Tree_delitem self (PyString name) None = (Inr 0, self1) \<and>
         Tree_add_entry g self1 (PyTuple [PyString hex, PyString name, PyInt a]) =
           (Inr Py_None, self2) \<and>
         Tree_getitem g self2 (PyString name) = Inr e \<and>
         git_tree_entry_id (TreeEntry_entry e) = oid \<and>
         Tree_len self2 = Tree_len self"
    if names: "distinct (map entry_filename (tree_entries (Object_obj self)))"
      and present: "git_tree_entry_byname (Object_obj self) name = Some old"
      and nul: "CHR 0x00 \<notin> set name" and mk: "git_oid_mkstr hex = Some oid"
      and lo: "- (2 ^ 31) \<le> sint a" and hi: "sint a < 2 ^ 31" and mem: "\<not> out_of_memory g"
  proof -
    let ?self1 = "self\<lparr>Object_obj := (Object_obj self)
        \<lparr>tree_entries := remove_first ?P (tree_entries (Object_obj self)),
         object_modified := True\<rparr>\<rparr>"
    let ?new = "\<lparr>entry_attr = ucast a, entry_filename = name, entry_oid = oid,
                 entry_owner = object_owner (Object_obj ?self1)\<rparr>"
    let ?self2 = "?self1\<lparr>Object_obj := (Object_obj ?self1)
        \<lparr>tree_entries := tree_entries (Object_obj ?self1) @ [?new\<lparr>entry_filename := name\<rparr>],
         object_modified := True\<rparr>\<rparr>"
    have del: "Tree_delitem self (PyString name) None = (Inr 0, ?self1)"
      by (rule Tree_delitem_by_name_ok [OF present nul])
    have add: "Tree_add_entry g ?self1 (PyTuple [PyString hex, PyString name, PyInt a]) =
        (Inr Py_None, ?self2)"
      using Tree_add_entry_ok [OF mk nul lo hi mem, of ?self1] by simp
    have fresh: "git_tree_entry_byname (Object_obj ?self1) name = None"
      using find_remove_first_distinct [OF names, of name]
      by (simp add: git_tree_entry_byname_def)
    have get: "Tree_getitem g ?self2 (PyString name) =
        Inr \<lparr>TreeEntry_entry = ?new\<lparr>entry_filename := name\<rparr>, TreeEntry_tree = ?self2\<rparr>"
      by (rule Tree_getitem_added [OF fresh nul mem])
    from present have "Suc (length (remove_first ?P (tree_entries (Object_obj self)))) =
        length (tree_entries (Object_obj self))"
      by (simp add: git_tree_entry_byname_def remove_first_length)
    then have len: "Tree_len ?self2 = Tree_len self"
      by (simp add: Tree_len_def git_tree_entrycount_def)
    from del add get len show ?thesis
      by (simp add: git_tree_entry_id_def)
  qed
  have rename: "\<exists>entry'. TreeEntry_set_name entry v1 = (Inr 0, entry') \<and>
         tree_entries (Object_obj (TreeEntry_tree entry')) =
           update_first (\<lambda>x. entry_filename x = c_str name) (\<lambda>x. x\<lparr>entry_filename := new\<rparr>)
             (tree_entries (Object_obj self))"
    if "Tree_getitem g self (PyString name) = Inr entry" and "PyString_AsString v1 = Inr new"
    using Tree_getitem_by_name_Inr [OF that(1)] that(2)
    by (simp add: TreeEntry_set_name_def git_tree_entry_set_name_def update_first_found)
  have retarget: "\<exists>entry'. TreeEntry_set_sha entry v2 = (Inr 0, entry') \<and>
         tree_entries (Object_obj (TreeEntry_tree entry')) =
           update_first (\<lambda>x. entry_filename x = c_str name) (\<lambda>x. x\<lparr>entry_oid := oid2\<rparr>)
             (tree_entries (Object_obj self))"
    if "Tree_getitem g self (PyString name) = Inr entry" and "PyString_AsString v2 = Inr hex2"
      and "git_oid_mkstr hex2 = Some oid2"
    using Tree_getitem_by_name_Inr [OF that(1)] that(2,3)
    by (simp add: TreeEntry_set_sha_def git_tree_entry_set_id_def update_first_found)
  have chmod: "\<exists>entry'. TreeEntry_set_attributes entry v3 = (Inr 0, entry') \<and>
         tree_entries (Object_obj (TreeEntry_tree entry')) =
           update_first (\<lambda>x. entry_filename x = c_str name) (\<lambda>x. x\<lparr>entry_attr := ucast bits\<rparr>)
             (tree_entries (Object_obj self))"
    if "Tree_getitem g self (PyString name) = Inr entry" and "PyInt_AsLong v3 = Inr bits"
    using Tree_getitem_by_name_Inr [OF that(1)] that(2)
    by (simp add: TreeEntry_set_attributes_def git_tree_entry_set_attributes_def
        update_first_found)
  from assign replace rename retarget chmod show ?thesis by blast
qed

text \<open>
  The claim as first stated has entries mutable only through remove followed by
  \<^verbatim>\<open>add_entry\<close>. Renaming the entry got under ``a.txt'' from the small tree changes the
  first entry of that tree in place.
\<close>

theorem entry_renamed_in_place_counterexample:
  "Tree_getitem small_env small_tree (PyString ''a.txt'') =
     Inr \<lparr>TreeEntry_entry = entry_a, TreeEntry_tree = small_tree\<rparr> \<and>
   fst (TreeEntry_set_name \<lparr>TreeEntry_entry = entry_a, TreeEntry_tree = small_tree\<rparr>
          (PyString ''z.txt'')) = Inr 0 \<and>
   tree_entries (Object_obj (TreeEntry_tree (snd
     (TreeEntry_set_name \<lparr>TreeEntry_entry = entry_a, TreeEntry_tree = small_tree\<rparr>
        (PyString ''z.txt''))))) = [entry_a\<lparr>entry_filename := ''z.txt''\<rparr>, entry_b] \<and>
   tree_entries (Object_obj small_tree) = [entry_a, entry_b] \<and>
   entry_filename entry_a = ''a.txt''"
proof -
  have get: "Tree_getitem small_env small_tree (PyString ''a.txt'') =
      Inr \<lparr>TreeEntry_entry = entry_a, TreeEntry_tree = small_tree\<rparr>"
    by (simp add: Tree_getitem_def Tree_getitem_by_name_def git_tree_entry_byname_def
        small_tree_entries c_str_def entry_a_def wrap_tree_entry_def tp_alloc_def
        small_env_memory)
  have set: "TreeEntry_set_name \<lparr>TreeEntry_entry = entry_a, TreeEntry_tree = small_tree\<rparr>
      (PyString ''z.txt'') =
      (Inr 0,
       \<lparr>TreeEntry_entry = entry_a\<lparr>entry_filename := ''z.txt''\<rparr>,
        TreeEntry_tree = small_tree\<lparr>Object_obj := (Object_obj small_tree)
          \<lparr>tree_entries := [entry_a\<lparr>entry_filename := ''z.txt''\<rparr>, entry_b],
           object_modified := True\<rparr>\<rparr>\<rparr>)"
    by (simp add: TreeEntry_set_name_def git_tree_entry_set_name_def c_str_def
        small_tree_entries)
  from get set show ?thesis
    by (simp add: small_tree_entries) (simp add: entry_a_def)
qed

theorem assignment_rejected_witness:
  "Tree_delitem small_tree (PyString ''a.txt'') (Some (PyInt 1)) =
     (Inl (Raised PyExc_ValueError (Message ''Cannot set TreeEntry directly; use add_entry.'')),
      small_tree) \<and>
   (\<exists>self1 self2 e.
      Tree_delitem small_tree (PyString ''a.txt'') None = (Inr 0, self1) \<and>
      Tree_add_entry small_env self1
        (PyTuple [PyString absent_hex, PyString ''a.txt'', PyInt 33188]) = (Inr Py_None, self2) \<and>
      Tree_getitem small_env self2 (PyString ''a.txt'') = Inr e \<and>
      git_tree_entry_id (TreeEntry_entry e) = absent_oid \<and>
      Tree_len self2 = Tree_len small_tree) \<and>
   (\<exists>entry'. TreeEntry_set_name \<lparr>TreeEntry_entry = entry_a, TreeEntry_tree = small_tree\<rparr>
        (PyString ''z.txt'') = (Inr 0, entry') \<and>
      tree_entries (Object_obj (TreeEntry_tree entry')) =
        [entry_a\<lparr>entry_filename := ''z.txt''\<rparr>, entry_b])"
proof -
  have names: "distinct (map entry_filename (tree_entries (Object_obj small_tree)))"
    by (simp add: small_tree_entries entry_a_def entry_b_def)
  have present: "git_tree_entry_byname (Object_obj small_tree) ''a.txt'' = Some entry_a"
    by (simp add: git_tree_entry_byname_def small_tree_entries entry_a_def)
  have nul: "CHR 0x00 \<notin> set ''a.txt''" by simp
  have lo: "- (2 ^ 31) \<le> sint (33188 :: 64 word)" and hi: "sint (33188 :: 64 word) < 2 ^ 31"
    by simp_all
  have get: "Tree_getitem small_env small_tree (PyString ''a.txt'') =
      Inr \<lparr>TreeEntry_entry = entry_a, TreeEntry_tree = small_tree\<rparr>"
    by (simp add: Tree_getitem_def Tree_getitem_by_name_def git_tree_entry_byname_def
        small_tree_entries c_str_def entry_a_def wrap_tree_entry_def tp_alloc_def
        small_env_memory)
  have str: "PyString_AsString (PyString ''z.txt'') = Inr ''z.txt''"
    by (simp add: c_str_def)
  have upd: "update_first (\<lambda>x. entry_filename x = c_str ''a.txt'')
      (\<lambda>x. x\<lparr>entry_filename := ''z.txt''\<rparr>) (tree_entries (Object_obj small_tree)) =
      [entry_a\<lparr>entry_filename := ''z.txt''\<rparr>, entry_b]"
    by (simp add: small_tree_entries c_str_def entry_a_def)
  note inst = assignment_rejected
    [where self = small_tree and key = "PyString ''a.txt''" and v = "PyInt 1"
       and name = "''a.txt''" and old = entry_a and hex = absent_hex and oid = absent_oid
       and a = 33188 and g = small_env
       and entry = "\<lparr>TreeEntry_entry = entry_a, TreeEntry_tree = small_tree\<rparr>"
       and ?v1.0 = "PyString ''z.txt''" and new = "''z.txt''"]
  from inst have 1: "Tree_delitem small_tree (PyString ''a.txt'') (Some (PyInt 1)) =
     (Inl (Raised PyExc_ValueError (Message ''Cannot set TreeEntry directly; use add_entry.'')),
      small_tree)"
    by blast
  from inst names present nul absent_hex_oid lo hi small_env_memory
  have 2: "\<exists>self1 self2 e.
      Tree_delitem small_tree (PyString ''a.txt'') None = (Inr 0, self1) \<and>
      Tree_add_entry small_env self1
        (PyTuple [PyString absent_hex, PyString ''a.txt'', PyInt 33188]) = (Inr Py_None, self2) \<and>
      Tree_getitem small_env self2 (PyString ''a.txt'') = Inr e \<and>
      git_tree_entry_id (TreeEntry_entry e) = absent_oid \<and>
      Tree_len self2 = Tree_len small_tree"
    by blast
  from inst get str
  have 3: "\<exists>entry'. TreeEntry_set_name \<lparr>TreeEntry_entry = entry_a, TreeEntry_tree = small_tree\<rparr>
        (PyString ''z.txt'') = (Inr 0, entry') \<and>
      tree_entries (Object_obj (TreeEntry_tree entry')) =
        [entry_a\<lparr>entry_filename := ''z.txt''\<rparr>, entry_b]"
    unfolding upd by blast
  from 1 2 3 show ?thesis by blast
qed

section \<open>Two lookups of one id\<close>



end
